theory Spec2Isabelle
  imports Complex_Main "HOL-Library.Word" "HOL-Library.Log_Nat"
begin

section \<open>Room statistics of the telemetry facade\<close>

text \<open>
  A shallow embedding of \<^verbatim>\<open>pkg/telemetry/prometheus/rooms.go\<close>. The Go file keeps
  sixteen package-level variables: nine \<^verbatim>\<open>atomic.Int32\<close> mirrors and seven Prometheus
  series. Every entry point is straight-line code over them, so the embedding is a
  record of the sixteen variables (and of the constant labels that \<^verbatim>\<open>initRoomStats\<close>
  gives every series) and one state transformer per entry point.

  What the embedding fixes about the libraries the file calls:
  \<^item> \<^verbatim>\<open>atomic.Int32\<close> is a 32-bit word; \<^verbatim>\<open>Inc\<close> and \<^verbatim>\<open>Dec\<close> add and subtract 1
    and wrap around, \<open>sint\<close> reads the stored value.
  \<^item> A gauge holds a \<^verbatim>\<open>float64\<close>. Starting from 0 and moving by 1, it holds an integer,
    exactly as long as the magnitude stays below \<open>2 ^ 53\<close>; the gauge is modelled by that
    integer. A counter is modelled by a natural number.
  \<^item> A metric vector creates the series of a label tuple on first use, with value 0.
    It is an association list from label values to values, in order of creation.
    \<^verbatim>\<open>WithLabelValues\<close> panics when a label value is not valid UTF-8. The label values
    that are literals in the source are ASCII; the ones that come from an argument
    (a kind, the message of an error) are checked.
  \<^item> A histogram is the list of its observations, oldest first, with its bucket bounds.
    An observation is a \<^verbatim>\<open>float64\<close>, modelled by the real number it denotes.
  \<^item> \<^verbatim>\<open>time.Time\<close> is the number of nanoseconds since the zero time (January 1, year 1,
    00:00 UTC) on one timeline; the clock reading is an argument of the call that reads it.
    \<^verbatim>\<open>time.Duration\<close> is a signed 64-bit number of nanoseconds, and \<^verbatim>\<open>time.Since\<close>
    saturates at its bounds.
  \<^item> The conversion \<^verbatim>\<open>float64(d)\<close> of a 64-bit integer and the \<^verbatim>\<open>float64\<close> division
    round to the nearest value with a 53-bit significand, ties to even. Every value
    that \<^verbatim>\<open>RoomEnded\<close> computes lies in the normal range of \<^verbatim>\<open>float64\<close>, so the
    exponent range is not modelled.
  \<^item> An \<^verbatim>\<open>error\<close> is nil or a value with a message; calling \<^verbatim>\<open>Error()\<close> on nil panics.
  The entry points are modelled on an initialised facade: the seven series exist
  (\<^verbatim>\<open>initRoomStats\<close> has run; before that the seven variables are nil). The
  registration of the series with the default registry is outside the embedding.
  Calls are sequential.
\<close>

subsection \<open>Metric values\<close>

type_synonym int32 = "32 word"

type_synonym 'k gaugeVec = "('k \<times> int) list"

type_synonym 'k counterVec = "('k \<times> nat) list"

record histogram =
  buckets :: "real list"
  observations :: "real list"

text \<open>The value of the series with label values \<open>k\<close>; a series not yet created reads 0.\<close>

definition vecGet :: "('k \<times> 'v::zero) list \<Rightarrow> 'k \<Rightarrow> 'v" where
  "vecGet xs k = (case map_of xs k of None \<Rightarrow> 0 | Some v \<Rightarrow> v)"

text \<open>
  What \<^verbatim>\<open>vec.WithLabelValues(k).Add(d)\<close> does once the label values are accepted: find
  the series or create it at 0, then add.
\<close>

fun vecAdd :: "('k \<times> 'v::monoid_add) list \<Rightarrow> 'k \<Rightarrow> 'v \<Rightarrow> ('k \<times> 'v) list" where
  "vecAdd [] k d = [(k, 0 + d)]"
| "vecAdd ((a, v) # xs) k d = (if a = k then (a, v + d) # xs else (a, v) # vecAdd xs k d)"

definition Observe :: "histogram \<Rightarrow> real \<Rightarrow> histogram" where
  "Observe h v = h\<lparr>observations := observations h @ [v]\<rparr>"

subsection \<open>Label values\<close>

text \<open>
  \<^verbatim>\<open>utf8.ValidString\<close>, on the bytes of the string: a sequence of well-formed encodings
  of one to four bytes, with no overlong form, no surrogate and nothing above U+10FFFF.
\<close>

definition continuation :: "nat \<Rightarrow> bool" where
  "continuation b = (128 \<le> b \<and> b \<le> 191)"

fun validBytes :: "nat list \<Rightarrow> bool" where
  "validBytes [] = True"
| "validBytes (b # bs) =
     (if b < 128 then validBytes bs
      else if 194 \<le> b \<and> b \<le> 223 then
        (case bs of
           c1 # r \<Rightarrow> continuation c1 \<and> validBytes r
         | _ \<Rightarrow> False)
      else if 224 \<le> b \<and> b \<le> 239 then
        (case bs of
           c1 # c2 # r \<Rightarrow>
             (if b = 224 then 160 \<le> c1 \<and> c1 \<le> 191
              else if b = 237 then 128 \<le> c1 \<and> c1 \<le> 159
              else continuation c1)
             \<and> continuation c2 \<and> validBytes r
         | _ \<Rightarrow> False)
      else if 240 \<le> b \<and> b \<le> 244 then
        (case bs of
           c1 # c2 # c3 # r \<Rightarrow>
             (if b = 240 then 144 \<le> c1 \<and> c1 \<le> 191
              else if b = 244 then 128 \<le> c1 \<and> c1 \<le> 143
              else continuation c1)
             \<and> continuation c2 \<and> continuation c3 \<and> validBytes r
         | _ \<Rightarrow> False)
      else False)"

definition ValidString :: "string \<Rightarrow> bool" where
  "ValidString s = validBytes (map of_char s)"

subsection \<open>Floating point\<close>

text \<open>The integer nearest to \<open>n / d\<close> for \<open>d > 0\<close>, the even one of two that are equally near.\<close>

definition roundHalfEven :: "int \<Rightarrow> int \<Rightarrow> int" where
  "roundHalfEven n d =
     (let q = n div d; r = n mod d
      in if 2 * r < d then q else if d < 2 * r then q + 1 else if even q then q else q + 1)"

text \<open>
  \<^verbatim>\<open>float64(d)\<close> for a 64-bit integer \<open>d\<close>, as the integer that the result denotes: \<open>d\<close>
  itself when it has at most 53 bits, and otherwise \<open>d\<close> rounded to 53 bits.
\<close>

definition float64FromInt :: "int \<Rightarrow> int" where
  "float64FromInt d =
     (let k = bitlen \<bar>d\<bar> - 53
      in if k \<le> 0 then d else sgn d * (roundHalfEven \<bar>d\<bar> (2 ^ nat k) * 2 ^ nat k))"

text \<open>\<open>m * 2 ^ e\<close> for an integer exponent, and \<open>a / (b * 2 ^ e)\<close> as a fraction of integers.\<close>

definition scale2 :: "int \<Rightarrow> int \<Rightarrow> real" where
  "scale2 m e = (if e < 0 then real_of_int m / 2 ^ nat (- e) else real_of_int m * 2 ^ nat e)"

definition numAt :: "int \<Rightarrow> int \<Rightarrow> int" where
  "numAt a e = (if e < 0 then a * 2 ^ nat (- e) else a)"

definition denAt :: "int \<Rightarrow> int \<Rightarrow> int" where
  "denAt b e = (if e < 0 then b else b * 2 ^ nat e)"

text \<open>
  The \<^verbatim>\<open>float64\<close> quotient \<open>a / b\<close> of two \<^verbatim>\<open>float64\<close> values that are integers, \<open>b > 0\<close>:
  the exponent \<open>e\<close> is the one that puts \<open>\<bar>a\<bar> / (b * 2 ^ e)\<close> between \<open>2 ^ 52\<close> and
  \<open>2 ^ 53\<close>, the significand is that number rounded to an integer.
\<close>

definition float64Quot :: "int \<Rightarrow> int \<Rightarrow> real" where
  "float64Quot a b =
     (if a = 0 then 0
      else let e0 = bitlen \<bar>a\<bar> - bitlen b - 53;
               e = (if numAt \<bar>a\<bar> e0 < 2 ^ 53 * denAt b e0 then e0 else e0 + 1)
           in scale2 (sgn a * roundHalfEven (numAt \<bar>a\<bar> e) (denAt b e)) e)"

subsection \<open>Time\<close>

type_synonym time = int

type_synonym duration = int

definition minDuration :: duration where
  "minDuration = - (2 ^ 63)"

definition maxDuration :: duration where
  "maxDuration = 2 ^ 63 - 1"

definition Second :: duration where
  "Second = 1000000000"

definition IsZero :: "time \<Rightarrow> bool" where
  "IsZero t = (t = 0)"

text \<open>
  \<^verbatim>\<open>time.Since(t)\<close> when the clock reads \<open>now\<close>: the difference \<open>now - t\<close>, or the
  nearest bound of a duration when the difference does not fit one.
\<close>

definition Since :: "time \<Rightarrow> time \<Rightarrow> duration" where
  "Since now t = (if now - t < minDuration then minDuration
                  else if maxDuration < now - t then maxDuration
                  else now - t)"

subsection \<open>The package state\<close>

record state =
  roomCurrent :: int32
  participantCurrent :: int32
  trackPublishedCurrent :: int32
  trackSubscribedCurrent :: int32
  trackPublishAttempts :: int32
  trackPublishSuccess :: int32
  trackSubscribeAttempts :: int32
  trackSubscribeSuccess :: int32
  trackSubscribeUserError :: int32
  promRoomCurrent :: int
  promRoomDuration :: histogram
  promParticipantCurrent :: int
  promTrackPublishedCurrent :: "string gaugeVec"
  promTrackSubscribedCurrent :: "string gaugeVec"
  promTrackPublishCounter :: "(string \<times> string) counterVec"
  promTrackSubscribeCounter :: "(string \<times> string) counterVec"
  constLabels :: "(string \<times> string) list"

text \<open>
  The state once the process has loaded and \<^verbatim>\<open>initRoomStats\<close> has run: the mirrors hold
  Go's zero value, every series is new. \<open>nodeType\<close> is the string of the node type.
\<close>

definition initRoomStats :: "string \<Rightarrow> string \<Rightarrow> string \<Rightarrow> state" where
  "initRoomStats nodeID nodeType env =
     \<lparr> roomCurrent = 0, participantCurrent = 0, trackPublishedCurrent = 0,
       trackSubscribedCurrent = 0, trackPublishAttempts = 0, trackPublishSuccess = 0,
       trackSubscribeAttempts = 0, trackSubscribeSuccess = 0, trackSubscribeUserError = 0,
       promRoomCurrent = 0,
       promRoomDuration =
         \<lparr> buckets = [5, 10, 60, 5 * 60, 10 * 60, 30 * 60, 60 * 60, 2 * 60 * 60,
                       5 * 60 * 60, 10 * 60 * 60],
           observations = [] \<rparr>,
       promParticipantCurrent = 0,
       promTrackPublishedCurrent = [],
       promTrackSubscribedCurrent = [],
       promTrackPublishCounter = [],
       promTrackSubscribeCounter = [],
       constLabels = [(''node_id'', nodeID), (''node_type'', nodeType), (''env'', env)] \<rparr>"

subsection \<open>Entry points\<close>

text \<open>
  An entry point that can panic returns either the state it leaves when it returns
  (\<open>Inr\<close>) or the panic together with the state the variables are in at that moment
  (\<open>Inl\<close>): a panic does not undo an update made before it.
\<close>

datatype error = NilError | Error string

datatype fault = NilPointerDereference | InvalidLabelValue

type_synonym result = "(fault \<times> state) + state"

definition final :: "result \<Rightarrow> state" where
  "final r = (case r of Inl (f, s) \<Rightarrow> s | Inr s \<Rightarrow> s)"

text \<open>\<^verbatim>\<open>func RoomStarted() { promRoomCurrent.Add(1); roomCurrent.Inc() }\<close>\<close>

definition RoomStarted :: "state \<Rightarrow> state" where
  "RoomStarted s = s\<lparr>promRoomCurrent := promRoomCurrent s + 1, roomCurrent := roomCurrent s + 1\<rparr>"

text \<open>
  \<^verbatim>\<open>func RoomEnded(startedAt time.Time) {\<close>
  \<^verbatim>\<open>  if !startedAt.IsZero() {\<close>
  \<^verbatim>\<open>    promRoomDuration.Observe(float64(time.Since(startedAt)) / float64(time.Second)) }\<close>
  \<^verbatim>\<open>  promRoomCurrent.Sub(1); roomCurrent.Dec() }\<close>
\<close>

definition RoomEnded :: "time \<Rightarrow> time \<Rightarrow> state \<Rightarrow> state" where
  "RoomEnded now startedAt s =
     (let s1 = (if \<not> IsZero startedAt
                then s\<lparr>promRoomDuration :=
                        Observe (promRoomDuration s)
                          (float64Quot (float64FromInt (Since now startedAt))
                             (float64FromInt Second))\<rparr>
                else s)
      in s1\<lparr>promRoomCurrent := promRoomCurrent s1 - 1, roomCurrent := roomCurrent s1 - 1\<rparr>)"

text \<open>\<^verbatim>\<open>func AddParticipant() { promParticipantCurrent.Add(1); participantCurrent.Inc() }\<close>\<close>

definition AddParticipant :: "state \<Rightarrow> state" where
  "AddParticipant s =
     s\<lparr>promParticipantCurrent := promParticipantCurrent s + 1,
       participantCurrent := participantCurrent s + 1\<rparr>"

text \<open>\<^verbatim>\<open>func SubParticipant() { promParticipantCurrent.Sub(1); participantCurrent.Dec() }\<close>\<close>

definition SubParticipant :: "state \<Rightarrow> state" where
  "SubParticipant s =
     s\<lparr>promParticipantCurrent := promParticipantCurrent s - 1,
       participantCurrent := participantCurrent s - 1\<rparr>"

text \<open>
  \<^verbatim>\<open>func AddPublishedTrack(kind string) {\<close>
  \<^verbatim>\<open>  promTrackPublishedCurrent.WithLabelValues(kind).Add(1); trackPublishedCurrent.Inc() }\<close>
\<close>

definition AddPublishedTrack :: "string \<Rightarrow> state \<Rightarrow> result" where
  "AddPublishedTrack kind s =
     (if \<not> ValidString kind then Inl (InvalidLabelValue, s)
      else Inr (s\<lparr>promTrackPublishedCurrent := vecAdd (promTrackPublishedCurrent s) kind 1,
                  trackPublishedCurrent := trackPublishedCurrent s + 1\<rparr>))"

text \<open>
  \<^verbatim>\<open>func SubPublishedTrack(kind string) {\<close>
  \<^verbatim>\<open>  promTrackPublishedCurrent.WithLabelValues(kind).Sub(1); trackPublishedCurrent.Dec() }\<close>
\<close>

definition SubPublishedTrack :: "string \<Rightarrow> state \<Rightarrow> result" where
  "SubPublishedTrack kind s =
     (if \<not> ValidString kind then Inl (InvalidLabelValue, s)
      else Inr (s\<lparr>promTrackPublishedCurrent := vecAdd (promTrackPublishedCurrent s) kind (- 1),
                  trackPublishedCurrent := trackPublishedCurrent s - 1\<rparr>))"

text \<open>
  \<^verbatim>\<open>func AddPublishAttempt(kind string) {\<close>
  \<^verbatim>\<open>  trackPublishAttempts.Inc()\<close>
  \<^verbatim>\<open>  promTrackPublishCounter.WithLabelValues(kind, "attempt").Inc() }\<close>

  The mirror is incremented before the label values are looked at.
\<close>

definition AddPublishAttempt :: "string \<Rightarrow> state \<Rightarrow> result" where
  "AddPublishAttempt kind s =
     (let s1 = s\<lparr>trackPublishAttempts := trackPublishAttempts s + 1\<rparr>
      in if \<not> ValidString kind then Inl (InvalidLabelValue, s1)
         else Inr (s1\<lparr>promTrackPublishCounter :=
                       vecAdd (promTrackPublishCounter s1) (kind, ''attempt'') 1\<rparr>))"

text \<open>
  \<^verbatim>\<open>func AddPublishSuccess(kind string) {\<close>
  \<^verbatim>\<open>  trackPublishSuccess.Inc()\<close>
  \<^verbatim>\<open>  promTrackPublishCounter.WithLabelValues(kind, "success").Inc() }\<close>
\<close>

definition AddPublishSuccess :: "string \<Rightarrow> state \<Rightarrow> result" where
  "AddPublishSuccess kind s =
     (let s1 = s\<lparr>trackPublishSuccess := trackPublishSuccess s + 1\<rparr>
      in if \<not> ValidString kind then Inl (InvalidLabelValue, s1)
         else Inr (s1\<lparr>promTrackPublishCounter :=
                       vecAdd (promTrackPublishCounter s1) (kind, ''success'') 1\<rparr>))"

text \<open>
  \<^verbatim>\<open>func RecordTrackSubscribeSuccess(kind string) {\<close>
  \<^verbatim>\<open>  promTrackSubscribedCurrent.WithLabelValues(kind).Add(1); trackSubscribedCurrent.Inc()\<close>
  \<^verbatim>\<open>  promTrackSubscribeCounter.WithLabelValues("success", "").Inc()\<close>
  \<^verbatim>\<open>  trackSubscribeSuccess.Inc() }\<close>
\<close>

definition RecordTrackSubscribeSuccess :: "string \<Rightarrow> state \<Rightarrow> result" where
  "RecordTrackSubscribeSuccess kind s =
     (if \<not> ValidString kind then Inl (InvalidLabelValue, s)
      else Inr (s\<lparr>promTrackSubscribedCurrent := vecAdd (promTrackSubscribedCurrent s) kind 1,
                  trackSubscribedCurrent := trackSubscribedCurrent s + 1,
                  promTrackSubscribeCounter :=
                    vecAdd (promTrackSubscribeCounter s) (''success'', '''') 1,
                  trackSubscribeSuccess := trackSubscribeSuccess s + 1\<rparr>))"

text \<open>
  \<^verbatim>\<open>func RecordTrackUnsubscribed(kind string) {\<close>
  \<^verbatim>\<open>  promTrackSubscribedCurrent.WithLabelValues(kind).Sub(1); trackSubscribedCurrent.Dec() }\<close>
\<close>

definition RecordTrackUnsubscribed :: "string \<Rightarrow> state \<Rightarrow> result" where
  "RecordTrackUnsubscribed kind s =
     (if \<not> ValidString kind then Inl (InvalidLabelValue, s)
      else Inr (s\<lparr>promTrackSubscribedCurrent := vecAdd (promTrackSubscribedCurrent s) kind (- 1),
                  trackSubscribedCurrent := trackSubscribedCurrent s - 1\<rparr>))"

text \<open>
  \<^verbatim>\<open>func RecordTrackSubscribeAttempt() {\<close>
  \<^verbatim>\<open>  trackSubscribeAttempts.Inc()\<close>
  \<^verbatim>\<open>  promTrackSubscribeCounter.WithLabelValues("attempt", "").Inc() }\<close>
\<close>

definition RecordTrackSubscribeAttempt :: "state \<Rightarrow> state" where
  "RecordTrackSubscribeAttempt s =
     s\<lparr>trackSubscribeAttempts := trackSubscribeAttempts s + 1,
       promTrackSubscribeCounter := vecAdd (promTrackSubscribeCounter s) (''attempt'', '''') 1\<rparr>"

text \<open>
  \<^verbatim>\<open>func RecordTrackSubscribeFailure(err error, isUserError bool) {\<close>
  \<^verbatim>\<open>  promTrackSubscribeCounter.WithLabelValues("failure", err.Error()).Inc()\<close>
  \<^verbatim>\<open>  if isUserError { trackSubscribeUserError.Inc() } }\<close>

  \<^verbatim>\<open>err.Error()\<close> is evaluated first and the label values are looked at next, both before
  any series or mirror is touched: on a nil error, and on a message that is not valid
  UTF-8, the call panics with the state as it was.
\<close>

definition RecordTrackSubscribeFailure :: "error \<Rightarrow> bool \<Rightarrow> state \<Rightarrow> result" where
  "RecordTrackSubscribeFailure err isUserError s =
     (case err of
        NilError \<Rightarrow> Inl (NilPointerDereference, s)
      | Error msg \<Rightarrow>
          if \<not> ValidString msg then Inl (InvalidLabelValue, s)
          else
            (let s1 = s\<lparr>promTrackSubscribeCounter :=
                          vecAdd (promTrackSubscribeCounter s) (''failure'', msg) 1\<rparr>
             in Inr (if isUserError
                     then s1\<lparr>trackSubscribeUserError := trackSubscribeUserError s1 + 1\<rparr>
                     else s1)))"

subsection \<open>Calls and sequences of calls\<close>

text \<open>
  One constructor per entry point, with its arguments. \<open>CallRoomEnded now startedAt\<close>
  also carries what the clock reads during the call.
\<close>

datatype call =
    CallRoomStarted
  | CallRoomEnded time time
  | CallAddParticipant
  | CallSubParticipant
  | CallAddPublishedTrack string
  | CallSubPublishedTrack string
  | CallAddPublishAttempt string
  | CallAddPublishSuccess string
  | CallRecordTrackSubscribeSuccess string
  | CallRecordTrackUnsubscribed string
  | CallRecordTrackSubscribeAttempt
  | CallRecordTrackSubscribeFailure error bool

fun step :: "call \<Rightarrow> state \<Rightarrow> result" where
  "step CallRoomStarted s = Inr (RoomStarted s)"
| "step (CallRoomEnded now startedAt) s = Inr (RoomEnded now startedAt s)"
| "step CallAddParticipant s = Inr (AddParticipant s)"
| "step CallSubParticipant s = Inr (SubParticipant s)"
| "step (CallAddPublishedTrack kind) s = AddPublishedTrack kind s"
| "step (CallSubPublishedTrack kind) s = SubPublishedTrack kind s"
| "step (CallAddPublishAttempt kind) s = AddPublishAttempt kind s"
| "step (CallAddPublishSuccess kind) s = AddPublishSuccess kind s"
| "step (CallRecordTrackSubscribeSuccess kind) s = RecordTrackSubscribeSuccess kind s"
| "step (CallRecordTrackUnsubscribed kind) s = RecordTrackUnsubscribed kind s"
| "step CallRecordTrackSubscribeAttempt s = Inr (RecordTrackSubscribeAttempt s)"
| "step (CallRecordTrackSubscribeFailure err isUserError) s =
     RecordTrackSubscribeFailure err isUserError s"

text \<open>A sequence of calls runs in order and ends at the first panic.\<close>

fun run :: "call list \<Rightarrow> state \<Rightarrow> result" where
  "run [] s = Inr s"
| "run (c # cs) s = (case step c s of Inl p \<Rightarrow> Inl p | Inr s' \<Rightarrow> run cs s')"

text \<open>The nine mirrors and the seven series of a state, each as one value.\<close>

definition mirrors :: "state \<Rightarrow> int32 list" where
  "mirrors s =
     [roomCurrent s, participantCurrent s, trackPublishedCurrent s, trackSubscribedCurrent s,
      trackPublishAttempts s, trackPublishSuccess s, trackSubscribeAttempts s,
      trackSubscribeSuccess s, trackSubscribeUserError s]"

definition series ::
  "state \<Rightarrow> (int \<times> histogram \<times> int) \<times> (string gaugeVec \<times> string gaugeVec)
     \<times> ((string \<times> string) counterVec \<times> (string \<times> string) counterVec)" where
  "series s =
     ((promRoomCurrent s, promRoomDuration s, promParticipantCurrent s),
      (promTrackPublishedCurrent s, promTrackSubscribedCurrent s),
      (promTrackPublishCounter s, promTrackSubscribeCounter s))"

subsection \<open>What the properties speak about\<close>

text \<open>A call performs a mirror update (a series update) when it returns and leaves the
  mirrors (the series) different from what they were.\<close>

definition updatesMirror :: "call \<Rightarrow> state \<Rightarrow> bool" where
  "updatesMirror c s = (case step c s of Inl p \<Rightarrow> False | Inr s' \<Rightarrow> mirrors s' \<noteq> mirrors s)"

definition updatesSeries :: "call \<Rightarrow> state \<Rightarrow> bool" where
  "updatesSeries c s = (case step c s of Inl p \<Rightarrow> False | Inr s' \<Rightarrow> series s' \<noteq> series s)"

text \<open>
  Kinds of call, read off the call alone: whether it passes a nil error, which label
  values it takes from its arguments, and whether one of the two makes it panic.
\<close>

fun hasNilError :: "call \<Rightarrow> bool" where
  "hasNilError (CallRecordTrackSubscribeFailure NilError isUserError) = True"
| "hasNilError c = False"

fun labelArguments :: "call \<Rightarrow> string list" where
  "labelArguments (CallAddPublishedTrack kind) = [kind]"
| "labelArguments (CallSubPublishedTrack kind) = [kind]"
| "labelArguments (CallAddPublishAttempt kind) = [kind]"
| "labelArguments (CallAddPublishSuccess kind) = [kind]"
| "labelArguments (CallRecordTrackSubscribeSuccess kind) = [kind]"
| "labelArguments (CallRecordTrackUnsubscribed kind) = [kind]"
| "labelArguments (CallRecordTrackSubscribeFailure (Error msg) isUserError) = [msg]"
| "labelArguments c = []"

definition faults :: "call \<Rightarrow> bool" where
  "faults c = (hasNilError c \<or> list_ex (\<lambda>l. \<not> ValidString l) (labelArguments c))"

text \<open>The calls of a sequence that run before its first panic.\<close>

definition executed :: "call list \<Rightarrow> call list" where
  "executed cs = takeWhile (\<lambda>c. \<not> faults c) cs"

fun isRoomEnded :: "call \<Rightarrow> bool" where
  "isRoomEnded (CallRoomEnded now startedAt) = True"
| "isRoomEnded c = False"

fun isSubscribeSuccess :: "call \<Rightarrow> bool" where
  "isSubscribeSuccess (CallRecordTrackSubscribeSuccess kind) = True"
| "isSubscribeSuccess c = False"

fun isUserFailure :: "call \<Rightarrow> bool" where
  "isUserFailure (CallRecordTrackSubscribeFailure err isUserError) = isUserError"
| "isUserFailure c = False"

text \<open>Rooms started minus rooms ended, participants added minus participants removed.\<close>

definition netRooms :: "call list \<Rightarrow> int" where
  "netRooms cs = int (count_list cs CallRoomStarted) - int (length (filter isRoomEnded cs))"

definition netParticipants :: "call list \<Rightarrow> int" where
  "netParticipants cs =
     int (count_list cs CallAddParticipant) - int (count_list cs CallSubParticipant)"

text \<open>The subscribe counter summed over every series whose state label is \<open>failure\<close>.\<close>

definition failureTotal :: "(string \<times> string) counterVec \<Rightarrow> nat" where
  "failureTotal xs = sum_list (map snd (filter (\<lambda>(l, v). fst l = ''failure'') xs))"

text \<open>The states that the scenarios below start from and pass through.\<close>

definition node1 :: state where
  "node1 = initRoomStats ''n1'' ''SERVER'' ''test''"

section \<open>Properties\<close>

subsection \<open>Metric vectors\<close>

lemma vecGet_vecAdd:
  "vecGet (vecAdd xs k d) k' = (if k' = k then vecGet xs k + d else vecGet xs k')"
  by (induction xs k d rule: vecAdd.induct) (auto simp: vecGet_def)

lemma map_of_vecAdd_other: "k' \<noteq> k \<Longrightarrow> map_of (vecAdd xs k d) k' = map_of xs k'"
  by (induction xs k d rule: vecAdd.induct) auto

lemma vecAdd_changes:
  fixes xs :: "('k \<times> 'v::cancel_comm_monoid_add) list"
  assumes "d \<noteq> 0"
  shows "vecAdd xs k d \<noteq> xs"
proof
  assume "vecAdd xs k d = xs"
  then have "vecGet (vecAdd xs k d) k = vecGet xs k"
    by simp
  with assms show False
    by (simp add: vecGet_vecAdd)
qed

lemma vecAdd_keys: "fst ` set (vecAdd xs k d) = insert k (fst ` set xs)"
  by (induction xs k d rule: vecAdd.induct) auto

lemma vecAdd_distinct: "distinct (map fst xs) \<Longrightarrow> distinct (map fst (vecAdd xs k d))"
  by (induction xs k d rule: vecAdd.induct) (auto simp: vecAdd_keys)

lemma failureTotal_vecAdd:
  "failureTotal (vecAdd xs (st, er) d) = failureTotal xs + (if st = ''failure'' then d else 0)"
  by (induction xs "(st, er)" d rule: vecAdd.induct) (auto simp: failureTotal_def)

subsection \<open>Label values\<close>

lemma valid_examples:
  "ValidString ''audio''" "ValidString ''video''" "ValidString ''denied''"
  "ValidString ''timeout''" "\<not> ValidString [CHR 0xFF]"
  by code_simp+

subsection \<open>Rounding\<close>

lemma roundHalfEven_error:
  assumes "0 < d"
  shows "\<bar>real_of_int (roundHalfEven n d) - real_of_int n / real_of_int d\<bar> \<le> 1 / 2"
proof -
  define q where "q = n div d"
  define r where "r = n mod d"
  define t where "t = real_of_int r / real_of_int d"
  have n: "n = q * d + r" and r: "0 \<le> r" "r < d"
    using assms by (simp_all add: q_def r_def)
  have nd: "real_of_int n / real_of_int d = real_of_int q + t"
    using assms by (simp add: n t_def field_simps)
  consider "2 * r < d" | "d < 2 * r" | "2 * r = d" by linarith
  then show ?thesis
  proof cases
    case 1
    then have "roundHalfEven n d = q" by (simp add: roundHalfEven_def q_def r_def Let_def)
    moreover have "0 \<le> t" "t \<le> 1 / 2"
    proof -
      from 1 have "2 * real_of_int r \<le> real_of_int d" by linarith
      with assms show "t \<le> 1 / 2" by (simp add: t_def field_simps)
      from r assms show "0 \<le> t" by (simp add: t_def)
    qed
    ultimately show ?thesis by (simp add: nd)
  next
    case 2
    then have "roundHalfEven n d = q + 1" by (simp add: roundHalfEven_def q_def r_def Let_def)
    moreover have "1 / 2 \<le> t" "t \<le> 1"
    proof -
      from 2 have "real_of_int d \<le> 2 * real_of_int r" by linarith
      with assms show "1 / 2 \<le> t" by (simp add: t_def field_simps)
      from r assms show "t \<le> 1" by (simp add: t_def)
    qed
    ultimately show ?thesis by (simp add: nd)
  next
    case 3
    then have "roundHalfEven n d = q \<or> roundHalfEven n d = q + 1"
      by (simp add: roundHalfEven_def q_def r_def Let_def)
    moreover have "t = 1 / 2"
    proof -
      from 3 have "2 * real_of_int r = real_of_int d" by linarith
      with assms show ?thesis by (simp add: t_def field_simps)
    qed
    ultimately show ?thesis by (auto simp: nd)
  qed
qed

lemma scale_abs:
  fixes p x y :: real
  assumes "0 < p" and "\<bar>x - y / p\<bar> \<le> 1 / 2"
  shows "\<bar>x * p - y\<bar> \<le> p / 2"
proof -
  have "x * p - y = (x - y / p) * p"
    using assms(1) by (simp add: field_simps)
  then have "\<bar>x * p - y\<bar> = \<bar>x - y / p\<bar> * p"
    using assms(1) by (simp add: abs_mult)
  also have "\<dots> \<le> (1 / 2) * p"
    using assms by (intro mult_right_mono) simp_all
  finally show ?thesis by simp
qed

lemma bitlen_lower:
  assumes "0 < x"
  shows "2 ^ nat (bitlen x - 1) \<le> x"
  using bitlen_bounds [OF assms] by simp

lemma float64FromInt_small:
  assumes "\<bar>d\<bar> < 2 ^ 53"
  shows "float64FromInt d = d"
proof -
  have "bitlen \<bar>d\<bar> \<le> 53"
    using assms by (simp add: bitlen_le_iff_power)
  then show ?thesis by (simp add: float64FromInt_def)
qed

lemma float64FromInt_Second: "float64FromInt Second = 1000000000"
  by (simp add: Second_def float64FromInt_small)

lemma float64FromInt_error:
  "\<bar>real_of_int (float64FromInt d) - real_of_int d\<bar> \<le> \<bar>real_of_int d\<bar> / 2 ^ 53"
proof (cases "bitlen \<bar>d\<bar> - 53 \<le> 0")
  case True
  then show ?thesis by (simp add: float64FromInt_def)
next
  case False
  define k where "k = nat (bitlen \<bar>d\<bar> - 53)"
  have k: "0 < k" "bitlen \<bar>d\<bar> = int k + 53" using False by (simp_all add: k_def)
  have dpos: "0 < \<bar>d\<bar>" using False by (cases "d = 0") simp_all
  define m where "m = roundHalfEven \<bar>d\<bar> (2 ^ k)"
  have F: "float64FromInt d = sgn d * (m * 2 ^ k)"
    using False by (simp add: float64FromInt_def m_def k_def Let_def)
  have "\<bar>real_of_int m - real_of_int \<bar>d\<bar> / real_of_int (2 ^ k)\<bar> \<le> 1 / 2"
    unfolding m_def by (rule roundHalfEven_error) simp
  then have "\<bar>real_of_int m - real_of_int \<bar>d\<bar> / 2 ^ k\<bar> \<le> 1 / 2"
    by simp
  then have e1: "\<bar>real_of_int m * 2 ^ k - real_of_int \<bar>d\<bar>\<bar> \<le> 2 ^ k / 2"
    by (intro scale_abs) simp_all
  have "(2::int) ^ nat (bitlen \<bar>d\<bar> - 1) \<le> \<bar>d\<bar>"
    using dpos by (rule bitlen_lower)
  moreover have "nat (bitlen \<bar>d\<bar> - 1) = k + 52" using k by simp
  ultimately have lo: "(2::int) ^ (k + 52) \<le> \<bar>d\<bar>" by simp
  then have "real_of_int ((2::int) ^ (k + 52)) \<le> real_of_int \<bar>d\<bar>" by linarith
  then have lo': "2 ^ k * 2 ^ 52 \<le> \<bar>real_of_int d\<bar>"
    by (simp add: power_add)
  have "\<bar>real_of_int (float64FromInt d) - real_of_int d\<bar>
          = \<bar>real_of_int m * 2 ^ k - real_of_int \<bar>d\<bar>\<bar>"
  proof (cases "0 < d")
    case True
    then show ?thesis by (simp add: F)
  next
    case False
    with dpos have "d < 0" by simp
    then have "real_of_int (float64FromInt d) - real_of_int d
                 = - (real_of_int m * 2 ^ k - real_of_int \<bar>d\<bar>)"
      by (simp add: F)
    then show ?thesis by (simp only: abs_minus)
  qed
  with e1 lo' show ?thesis
    by simp
qed

lemma scale2_powr: "scale2 m e = real_of_int m * 2 powr real_of_int e"
  by (simp add: scale2_def powr_int)

lemma ratio_powr:
  assumes "0 < b"
  shows "real_of_int (numAt A e) / real_of_int (denAt b e)
           = (real_of_int A / real_of_int b) / 2 powr real_of_int e"
  using assms by (simp add: numAt_def denAt_def powr_int field_simps)

lemma denAt_pos: "0 < b \<Longrightarrow> 0 < denAt b e"
  by (simp add: denAt_def)

lemma bitlen_powr:
  assumes "0 < x"
  shows "2 powr real_of_int (bitlen x - 1) \<le> real_of_int x"
    and "real_of_int x < 2 powr real_of_int (bitlen x)"
proof -
  have f: "bitlen x = \<lfloor>log 2 (real_of_int x)\<rfloor> + 1"
    using assms by (simp add: bitlen_alt_def)
  have "real_of_int (bitlen x - 1) \<le> log 2 (real_of_int x)"
    by (simp add: f)
  then show "2 powr real_of_int (bitlen x - 1) \<le> real_of_int x"
    using assms by (simp add: le_log_iff)
  have "log 2 (real_of_int x) < real_of_int (bitlen x)"
    by (simp add: f)
  then show "real_of_int x < 2 powr real_of_int (bitlen x)"
    using assms by (simp add: log_less_iff)
qed

lemma float64Quot_error:
  assumes b: "0 < b"
  shows "\<bar>float64Quot a b - real_of_int a / real_of_int b\<bar>
           \<le> \<bar>real_of_int a / real_of_int b\<bar> / 2 ^ 53"
proof (cases "a = 0")
  case True
  then show ?thesis by (simp add: float64Quot_def)
next
  case False
  define A where "A = \<bar>a\<bar>"
  have A: "0 < A" using False by (simp add: A_def)
  define x where "x = real_of_int A / real_of_int b"
  have x: "0 < x" using A b by (simp add: x_def)
  define e0 where "e0 = bitlen A - bitlen b - 53"
  define e where "e = (if numAt A e0 < 2 ^ 53 * denAt b e0 then e0 else e0 + 1)"
  define m where "m = roundHalfEven (numAt A e) (denAt b e)"
  define s where "s = 2 powr real_of_int e"
  have s: "0 < s" by (simp add: s_def)
  have Q: "float64Quot a b = real_of_int (sgn a * m) * s"
    using False
    by (simp add: float64Quot_def Let_def scale2_powr A_def e0_def e_def m_def s_def)
  have ratio: "real_of_int (numAt A e') / real_of_int (denAt b e') = x / 2 powr real_of_int e'"
    for e'
    unfolding x_def by (rule ratio_powr [OF b])
  have lo0: "2 ^ 52 * 2 powr real_of_int e0 < x"
  proof -
    have "2 powr real_of_int (bitlen A - 1) \<le> real_of_int A"
      using A by (rule bitlen_powr)
    moreover have "real_of_int b < 2 powr real_of_int (bitlen b)"
      using b by (rule bitlen_powr)
    ultimately have "2 powr real_of_int (bitlen A - 1) / 2 powr real_of_int (bitlen b) < x"
      unfolding x_def using A b
      by (intro frac_less2) simp_all
    moreover have "2 powr real_of_int (bitlen A - 1) / 2 powr real_of_int (bitlen b)
                     = 2 ^ 52 * 2 powr real_of_int e0"
    proof -
      have "2 powr real_of_int (bitlen A - 1) / 2 powr real_of_int (bitlen b)
              = 2 powr (real_of_int (bitlen A - 1) - real_of_int (bitlen b))"
        by (simp only: powr_diff)
      also have "real_of_int (bitlen A - 1) - real_of_int (bitlen b) = 52 + real_of_int e0"
        by (simp add: e0_def)
      also have "2 powr (52 + real_of_int e0) = 2 powr 52 * 2 powr real_of_int e0"
        by (simp only: powr_add)
      also have "(2::real) powr 52 = 2 ^ 52"
        by simp
      finally show ?thesis .
    qed
    ultimately show ?thesis by (simp only:)
  qed
  have lo: "2 ^ 52 * s \<le> x"
  proof (cases "numAt A e0 < 2 ^ 53 * denAt b e0")
    case True
    then have "e = e0" by (simp add: e_def)
    with lo0 show ?thesis by (simp add: s_def)
  next
    case False
    then have e: "e = e0 + 1" by (simp add: e_def)
    from False have "2 ^ 53 * denAt b e0 \<le> numAt A e0" by simp
    then have "real_of_int (2 ^ 53 * denAt b e0) \<le> real_of_int (numAt A e0)"
      by (simp only: of_int_le_iff)
    then have "2 ^ 53 \<le> real_of_int (numAt A e0) / real_of_int (denAt b e0)"
      using denAt_pos [OF b, of e0] by (simp add: field_simps)
    then have "2 ^ 53 \<le> x / 2 powr real_of_int e0"
      by (simp only: ratio)
    then have "2 ^ 53 * 2 powr real_of_int e0 \<le> x"
      by (simp add: field_simps)
    moreover have "s = 2 * 2 powr real_of_int e0"
      by (simp add: s_def e powr_add)
    ultimately show ?thesis by simp
  qed
  have "\<bar>real_of_int m - real_of_int (numAt A e) / real_of_int (denAt b e)\<bar> \<le> 1 / 2"
    unfolding m_def by (rule roundHalfEven_error) (rule denAt_pos [OF b])
  then have "\<bar>real_of_int m - x / s\<bar> \<le> 1 / 2"
    by (simp only: ratio s_def)
  with s have err: "\<bar>real_of_int m * s - x\<bar> \<le> s / 2"
    by (intro scale_abs)
  have "\<bar>float64Quot a b - real_of_int a / real_of_int b\<bar> = \<bar>real_of_int m * s - x\<bar>"
  proof (cases "0 < a")
    case True
    then show ?thesis by (simp add: Q x_def A_def)
  next
    case False
    with \<open>a \<noteq> 0\<close> have neg: "a < 0" by simp
    then have "float64Quot a b - real_of_int a / real_of_int b = - (real_of_int m * s - x)"
      by (simp add: Q x_def A_def)
    then show ?thesis by (simp only: abs_minus)
  qed
  moreover have "\<bar>real_of_int a / real_of_int b\<bar> = x"
    using b by (simp add: x_def A_def abs_divide)
  moreover from lo have "s / 2 \<le> x / 2 ^ 53"
    by simp
  ultimately show ?thesis using err by simp
qed

text \<open>
  The two roundings together: a duration of \<open>d\<close> nanoseconds is observed as a number of
  seconds that is off by at most \<open>\<bar>d\<bar> / 10 ^ 9 / 2 ^ 51\<close>.
\<close>

lemma seconds_error:
  "\<bar>float64Quot (float64FromInt d) 1000000000 - real_of_int d / 1000000000\<bar>
     \<le> \<bar>real_of_int d\<bar> / 1000000000 / 2 ^ 51"
proof -
  define u :: real where "u = 1 / 2 ^ 53"
  define F where "F = real_of_int (float64FromInt d)"
  define D where "D = real_of_int d"
  define Q where "Q = float64Quot (float64FromInt d) 1000000000"
  define B :: real where "B = 1000000000"
  have u: "0 < u" "u \<le> 1" by (simp_all add: u_def)
  have B: "0 < B" by (simp add: B_def)
  have e1: "\<bar>F - D\<bar> \<le> \<bar>D\<bar> * u"
    using float64FromInt_error [of d] by (simp add: F_def D_def u_def)
  have F: "\<bar>F\<bar> \<le> \<bar>D\<bar> + \<bar>D\<bar> * u"
    using e1 by linarith
  have "\<bar>Q - F / B\<bar> \<le> \<bar>F / B\<bar> * u"
    using float64Quot_error [of 1000000000 "float64FromInt d"]
    by (simp add: Q_def F_def u_def B_def)
  then have e2: "\<bar>Q - F / B\<bar> \<le> \<bar>F\<bar> * u / B"
    using B by simp
  have "\<bar>D\<bar> * u * u \<le> \<bar>D\<bar> * u * 1"
    using u by (intro mult_left_mono) simp_all
  then have uu: "\<bar>D\<bar> * u * u \<le> \<bar>D\<bar> * u"
    by simp
  have "\<bar>F\<bar> * u \<le> (\<bar>D\<bar> + \<bar>D\<bar> * u) * u"
    using F u by (intro mult_right_mono) simp_all
  also have "\<dots> = \<bar>D\<bar> * u + \<bar>D\<bar> * u * u"
    by (simp add: algebra_simps)
  finally have Fu: "\<bar>F\<bar> * u \<le> 2 * (\<bar>D\<bar> * u)"
    using uu by linarith
  have tri: "\<bar>Q - D / B\<bar> \<le> \<bar>Q - F / B\<bar> + \<bar>F - D\<bar> / B"
  proof -
    have "\<bar>F / B - D / B\<bar> = \<bar>F - D\<bar> / B"
      using B by (simp add: diff_divide_distrib [symmetric])
    then show ?thesis by linarith
  qed
  have "\<bar>Q - F / B\<bar> \<le> 2 * (\<bar>D\<bar> * u) / B"
    using e2 Fu B by (meson divide_right_mono less_imp_le order_trans)
  moreover have "\<bar>F - D\<bar> / B \<le> \<bar>D\<bar> * u / B"
    using e1 B by (simp add: divide_right_mono)
  ultimately have "\<bar>Q - D / B\<bar> \<le> 2 * (\<bar>D\<bar> * u) / B + \<bar>D\<bar> * u / B"
    using tri by linarith
  also have "\<dots> \<le> 4 * (\<bar>D\<bar> * u) / B"
    using B u by (simp add: field_simps)
  also have "\<dots> = \<bar>D\<bar> / B / 2 ^ 51"
    by (simp add: u_def)
  finally show ?thesis
    by (simp add: Q_def D_def B_def)
qed

lemma float64_examples:
  "float64Quot (float64FromInt 65000001026) 1000000000 = 1143492110936623 / 17592186044416"
  "float64Quot (float64FromInt 65000000000) 1000000000 = 65"
  "float64Quot (float64FromInt 9223372036854775807) 1000000000 = 4835703278458517 / 524288"
  "float64Quot (float64FromInt (- 9223372036854775808)) 1000000000
     = - 4835703278458517 / 524288"
  by code_simp+

subsection \<open>Single calls\<close>

lemmas entry_defs =
  RoomStarted_def RoomEnded_def AddParticipant_def SubParticipant_def AddPublishedTrack_def
  SubPublishedTrack_def AddPublishAttempt_def AddPublishSuccess_def
  RecordTrackSubscribeSuccess_def RecordTrackUnsubscribed_def RecordTrackSubscribeAttempt_def
  RecordTrackSubscribeFailure_def

lemmas time_defs = IsZero_def Since_def minDuration_def maxDuration_def

text \<open>
  Claim C9. Nothing detects or clamps a decrement below zero. \<^verbatim>\<open>SubParticipant\<close>
  returns normally in every state, takes 1 off the participant gauge and 1 off the
  mirror; called once on the state after start-up it leaves the gauge at \<open>- 1\<close> and the
  mirror, read as a signed 32-bit integer, at \<open>- 1\<close>. The other three decrementing
  entry points do the same to their gauge and mirror; the two that take a kind do so
  for every kind that is valid UTF-8, and then they return.
\<close>

theorem decrement_below_zero:
  "step CallSubParticipant s = Inr (SubParticipant s)
   \<and> promParticipantCurrent (SubParticipant s) = promParticipantCurrent s - 1
   \<and> participantCurrent (SubParticipant s) = participantCurrent s - 1
   \<and> promParticipantCurrent (SubParticipant (initRoomStats nodeID nodeType env)) = - 1
   \<and> sint (participantCurrent (SubParticipant (initRoomStats nodeID nodeType env))) = - 1
   \<and> promRoomCurrent (RoomEnded now startedAt (initRoomStats nodeID nodeType env)) = - 1
   \<and> sint (roomCurrent (RoomEnded now startedAt (initRoomStats nodeID nodeType env))) = - 1
   \<and> (ValidString kind \<longrightarrow>
        \<not> isl (SubPublishedTrack kind (initRoomStats nodeID nodeType env))
        \<and> vecGet (promTrackPublishedCurrent
             (final (SubPublishedTrack kind (initRoomStats nodeID nodeType env)))) kind = - 1
        \<and> sint (trackPublishedCurrent
             (final (SubPublishedTrack kind (initRoomStats nodeID nodeType env)))) = - 1
        \<and> \<not> isl (RecordTrackUnsubscribed kind (initRoomStats nodeID nodeType env))
        \<and> vecGet (promTrackSubscribedCurrent
             (final (RecordTrackUnsubscribed kind (initRoomStats nodeID nodeType env)))) kind = - 1
        \<and> sint (trackSubscribedCurrent
             (final (RecordTrackUnsubscribed kind (initRoomStats nodeID nodeType env)))) = - 1)"
  by (simp add: SubParticipant_def RoomEnded_def SubPublishedTrack_def
        RecordTrackUnsubscribed_def initRoomStats_def vecGet_def final_def)

theorem decrement_below_zero_witness:
  "ValidString ''audio''
   \<and> \<not> isl (SubPublishedTrack ''audio'' node1)
   \<and> vecGet (promTrackPublishedCurrent (final (SubPublishedTrack ''audio'' node1))) ''audio'' = - 1
   \<and> sint (trackPublishedCurrent (final (SubPublishedTrack ''audio'' node1))) = - 1
   \<and> vecGet (promTrackSubscribedCurrent (final (RecordTrackUnsubscribed ''audio'' node1)))
        ''audio'' = - 1
   \<and> sint (participantCurrent (SubParticipant node1)) = - 1"
  using decrement_below_zero
          [where kind = "''audio''" and nodeID = "''n1''" and nodeType = "''SERVER''"
             and env = "''test''" and s = node1 and now = 0 and startedAt = 0]
  by (simp add: node1_def valid_examples SubParticipant_def initRoomStats_def)

text \<open>
  Claim C10. \<^verbatim>\<open>AddPublishAttempt(k)\<close> adds 1 to the mirror \<^verbatim>\<open>trackPublishAttempts\<close> and,
  when it returns, to the series of the publish counter labelled \<open>(k, attempt)\<close>, and
  nothing else: every other series of that counter is as before, and the state the
  call leaves differs from the state before in no variable but these two (the two
  states are equal once both variables are overwritten with the same values).
  \<^verbatim>\<open>AddPublishSuccess(k)\<close> does the same with \<^verbatim>\<open>trackPublishSuccess\<close> and the series
  \<open>(k, success)\<close>. In particular the gauge vector \<^verbatim>\<open>published_total\<close> and the mirror
  \<^verbatim>\<open>trackPublishedCurrent\<close> keep their values. The call returns exactly when \<open>k\<close> is
  valid UTF-8; when it panics the mirror has been incremented and the counter is
  untouched, so the frame holds for the state at the panic as well.
\<close>

theorem AddPublishAttempt_AddPublishSuccess_frame:
  "trackPublishAttempts (final (AddPublishAttempt k s)) = trackPublishAttempts s + 1
   \<and> (ValidString k \<longrightarrow>
        \<not> isl (AddPublishAttempt k s)
        \<and> vecGet (promTrackPublishCounter (final (AddPublishAttempt k s))) (k, ''attempt'')
            = vecGet (promTrackPublishCounter s) (k, ''attempt'') + 1)
   \<and> (\<not> ValidString k \<longrightarrow>
        isl (AddPublishAttempt k s)
        \<and> promTrackPublishCounter (final (AddPublishAttempt k s)) = promTrackPublishCounter s)
   \<and> (\<forall>l. l \<noteq> (k, ''attempt'') \<longrightarrow>
         map_of (promTrackPublishCounter (final (AddPublishAttempt k s))) l
           = map_of (promTrackPublishCounter s) l)
   \<and> (final (AddPublishAttempt k s))\<lparr>trackPublishAttempts := m, promTrackPublishCounter := v\<rparr>
       = s\<lparr>trackPublishAttempts := m, promTrackPublishCounter := v\<rparr>
   \<and> trackPublishSuccess (final (AddPublishSuccess k s)) = trackPublishSuccess s + 1
   \<and> (ValidString k \<longrightarrow>
        \<not> isl (AddPublishSuccess k s)
        \<and> vecGet (promTrackPublishCounter (final (AddPublishSuccess k s))) (k, ''success'')
            = vecGet (promTrackPublishCounter s) (k, ''success'') + 1)
   \<and> (\<not> ValidString k \<longrightarrow>
        isl (AddPublishSuccess k s)
        \<and> promTrackPublishCounter (final (AddPublishSuccess k s)) = promTrackPublishCounter s)
   \<and> (\<forall>l. l \<noteq> (k, ''success'') \<longrightarrow>
         map_of (promTrackPublishCounter (final (AddPublishSuccess k s))) l
           = map_of (promTrackPublishCounter s) l)
   \<and> (final (AddPublishSuccess k s))\<lparr>trackPublishSuccess := m, promTrackPublishCounter := v\<rparr>
       = s\<lparr>trackPublishSuccess := m, promTrackPublishCounter := v\<rparr>
   \<and> promTrackPublishedCurrent (final (AddPublishAttempt k s)) = promTrackPublishedCurrent s
   \<and> trackPublishedCurrent (final (AddPublishAttempt k s)) = trackPublishedCurrent s
   \<and> promTrackPublishedCurrent (final (AddPublishSuccess k s)) = promTrackPublishedCurrent s
   \<and> trackPublishedCurrent (final (AddPublishSuccess k s)) = trackPublishedCurrent s"
  by (simp add: AddPublishAttempt_def AddPublishSuccess_def final_def Let_def vecGet_vecAdd
        map_of_vecAdd_other)

theorem AddPublishAttempt_AddPublishSuccess_frame_witness:
  "ValidString ''audio''
   \<and> (''video'', ''attempt'') \<noteq> (''audio'', ''attempt'')
   \<and> (''audio'', ''attempt'') \<noteq> (''audio'', ''success'')
   \<and> vecGet (promTrackPublishCounter
        (final (AddPublishAttempt ''audio'' (final (AddPublishAttempt ''video'' node1)))))
        (''audio'', ''attempt'') = 1
   \<and> map_of (promTrackPublishCounter
        (final (AddPublishAttempt ''audio'' (final (AddPublishAttempt ''video'' node1)))))
        (''video'', ''attempt'') = Some 1
   \<and> vecGet (promTrackPublishCounter
        (final (AddPublishSuccess ''audio'' (final (AddPublishAttempt ''audio'' node1)))))
        (''audio'', ''success'') = 1
   \<and> map_of (promTrackPublishCounter
        (final (AddPublishSuccess ''audio'' (final (AddPublishAttempt ''audio'' node1)))))
        (''audio'', ''attempt'') = Some 1
   \<and> sint (trackPublishAttempts
        (final (AddPublishAttempt ''audio'' (final (AddPublishAttempt ''video'' node1))))) = 2
   \<and> trackPublishedCurrent
        (final (AddPublishSuccess ''audio'' (final (AddPublishAttempt ''audio'' node1)))) = 0
   \<and> \<not> ValidString [CHR 0xFF]
   \<and> isl (AddPublishAttempt [CHR 0xFF] node1)
   \<and> sint (trackPublishAttempts (final (AddPublishAttempt [CHR 0xFF] node1))) = 1
   \<and> promTrackPublishCounter (final (AddPublishAttempt [CHR 0xFF] node1)) = []"
  using AddPublishAttempt_AddPublishSuccess_frame
          [where k = "''audio''" and s = "final (AddPublishAttempt ''video'' node1)"]
        AddPublishAttempt_AddPublishSuccess_frame
          [where k = "''audio''" and s = "final (AddPublishAttempt ''audio'' node1)"]
        AddPublishAttempt_AddPublishSuccess_frame
          [where k = "[CHR 0xFF]" and s = node1]
  by (simp add: AddPublishAttempt_def AddPublishSuccess_def final_def node1_def
        initRoomStats_def vecGet_def valid_examples)

text \<open>
  Claim C8. For every kind \<open>k\<close> that is valid UTF-8, \<^verbatim>\<open>RecordTrackUnsubscribed(k)\<close>
  returns and takes 1 off the series \<open>k\<close> of the gauge vector \<^verbatim>\<open>subscribed_total\<close> and 1
  off the mirror \<^verbatim>\<open>trackSubscribedCurrent\<close> (in the mirror's 32-bit arithmetic). For any
  other \<open>k\<close> it panics with every variable as it was. In both cases every other series
  of the vector is as before, both counters are untouched, and no variable but these
  two differs after the call. No call of \<^verbatim>\<open>RecordTrackSubscribeFailure\<close>, returning or
  panicking, changes \<^verbatim>\<open>subscribed_total\<close>.

  The claim as written has the decrement for every kind; the counterexample after the
  theorem is a kind that is not valid UTF-8.
\<close>

theorem RecordTrackUnsubscribed_frame:
  "(ValidString k \<longrightarrow>
      \<not> isl (RecordTrackUnsubscribed k s)
      \<and> vecGet (promTrackSubscribedCurrent (final (RecordTrackUnsubscribed k s))) k
          = vecGet (promTrackSubscribedCurrent s) k - 1
      \<and> trackSubscribedCurrent (final (RecordTrackUnsubscribed k s))
          = trackSubscribedCurrent s - 1)
   \<and> (\<not> ValidString k \<longrightarrow> RecordTrackUnsubscribed k s = Inl (InvalidLabelValue, s))
   \<and> (\<forall>k'. k' \<noteq> k \<longrightarrow>
         map_of (promTrackSubscribedCurrent (final (RecordTrackUnsubscribed k s))) k'
           = map_of (promTrackSubscribedCurrent s) k')
   \<and> promTrackSubscribeCounter (final (RecordTrackUnsubscribed k s))
       = promTrackSubscribeCounter s
   \<and> promTrackPublishCounter (final (RecordTrackUnsubscribed k s)) = promTrackPublishCounter s
   \<and> (final (RecordTrackUnsubscribed k s))
         \<lparr>promTrackSubscribedCurrent := v, trackSubscribedCurrent := m\<rparr>
       = s\<lparr>promTrackSubscribedCurrent := v, trackSubscribedCurrent := m\<rparr>
   \<and> (\<forall>err isUserError.
         promTrackSubscribedCurrent (final (RecordTrackSubscribeFailure err isUserError s))
           = promTrackSubscribedCurrent s)"
  by (auto simp add: RecordTrackUnsubscribed_def RecordTrackSubscribeFailure_def Let_def
        final_def vecGet_vecAdd map_of_vecAdd_other split: error.splits)

theorem RecordTrackUnsubscribed_frame_witness:
  "ValidString ''video''
   \<and> ''audio'' \<noteq> ''video''
   \<and> \<not> isl (RecordTrackUnsubscribed ''video'' (final (RecordTrackSubscribeSuccess ''audio'' node1)))
   \<and> vecGet (promTrackSubscribedCurrent
        (final (RecordTrackUnsubscribed ''video''
                 (final (RecordTrackSubscribeSuccess ''audio'' node1))))) ''video'' = - 1
   \<and> map_of (promTrackSubscribedCurrent
        (final (RecordTrackUnsubscribed ''video''
                 (final (RecordTrackSubscribeSuccess ''audio'' node1))))) ''audio'' = Some 1
   \<and> sint (trackSubscribedCurrent
        (final (RecordTrackUnsubscribed ''video''
                 (final (RecordTrackSubscribeSuccess ''audio'' node1))))) = 0
   \<and> promTrackSubscribeCounter
        (final (RecordTrackUnsubscribed ''video''
                 (final (RecordTrackSubscribeSuccess ''audio'' node1))))
       = [((''success'', ''''), 1)]
   \<and> promTrackSubscribedCurrent
        (final (RecordTrackSubscribeFailure (Error ''denied'') True
                 (final (RecordTrackSubscribeSuccess ''audio'' node1))))
       = [(''audio'', 1)]"
  using RecordTrackUnsubscribed_frame
          [where k = "''video''" and s = "final (RecordTrackSubscribeSuccess ''audio'' node1)"]
  by (simp add: RecordTrackUnsubscribed_def RecordTrackSubscribeSuccess_def
        RecordTrackSubscribeFailure_def final_def node1_def initRoomStats_def vecGet_def
        valid_examples)

text \<open>
  One video subscription is live; \<^verbatim>\<open>RecordTrackUnsubscribed\<close> is called with the one-byte
  kind \<open>0xFF\<close>. The call panics: no series of the gauge vector goes down, and the mirror
  still reads 1.
\<close>

theorem RecordTrackUnsubscribed_invalid_kind:
  "RecordTrackUnsubscribed [CHR 0xFF] (final (RecordTrackSubscribeSuccess ''video'' node1))
     = Inl (InvalidLabelValue, final (RecordTrackSubscribeSuccess ''video'' node1))
   \<and> promTrackSubscribedCurrent (final (RecordTrackSubscribeSuccess ''video'' node1))
     = [(''video'', 1)]
   \<and> sint (trackSubscribedCurrent (final (RecordTrackSubscribeSuccess ''video'' node1))) = 1
   \<and> trackSubscribedCurrent
        (final (RecordTrackUnsubscribed [CHR 0xFF]
                 (final (RecordTrackSubscribeSuccess ''video'' node1))))
       \<noteq> trackSubscribedCurrent (final (RecordTrackSubscribeSuccess ''video'' node1)) - 1
   \<and> vecGet (promTrackSubscribedCurrent
        (final (RecordTrackUnsubscribed [CHR 0xFF]
                 (final (RecordTrackSubscribeSuccess ''video'' node1))))) [CHR 0xFF]
       \<noteq> vecGet (promTrackSubscribedCurrent
            (final (RecordTrackSubscribeSuccess ''video'' node1))) [CHR 0xFF] - 1"
  by (simp add: RecordTrackUnsubscribed_def RecordTrackSubscribeSuccess_def final_def
        node1_def initRoomStats_def valid_examples vecGet_def)

text \<open>
  Claim C7. No entry point lowers a value of the publish counter or of the subscribe
  counter: whatever the call, its arguments and the label values, the value of the series
  in the state the call leaves, returning or panicking, is at least its value before.
  The five mirrors that count events are never decremented either: a call leaves each
  as it was or adds 1 to it.
\<close>

theorem counters_never_decrease:
  "vecGet (promTrackPublishCounter s) l \<le> vecGet (promTrackPublishCounter (final (step c s))) l
   \<and> vecGet (promTrackSubscribeCounter s) l
       \<le> vecGet (promTrackSubscribeCounter (final (step c s))) l
   \<and> trackPublishAttempts (final (step c s))
       \<in> {trackPublishAttempts s, trackPublishAttempts s + 1}
   \<and> trackPublishSuccess (final (step c s))
       \<in> {trackPublishSuccess s, trackPublishSuccess s + 1}
   \<and> trackSubscribeAttempts (final (step c s))
       \<in> {trackSubscribeAttempts s, trackSubscribeAttempts s + 1}
   \<and> trackSubscribeSuccess (final (step c s))
       \<in> {trackSubscribeSuccess s, trackSubscribeSuccess s + 1}
   \<and> trackSubscribeUserError (final (step c s))
       \<in> {trackSubscribeUserError s, trackSubscribeUserError s + 1}
   \<and> (step c s = Inr s' \<longrightarrow> final (step c s) = s')"
  by (cases c)
     (auto simp: entry_defs Let_def final_def vecGet_vecAdd split: error.splits)

theorem counters_never_decrease_witness:
  "step (CallRecordTrackUnsubscribed ''video'') (final (RecordTrackSubscribeSuccess ''video'' node1))
     = Inr (final (RecordTrackUnsubscribed ''video''
                    (final (RecordTrackSubscribeSuccess ''video'' node1))))
   \<and> vecGet (promTrackSubscribeCounter (final (RecordTrackSubscribeSuccess ''video'' node1)))
        (''success'', '''')
       \<le> vecGet (promTrackSubscribeCounter
             (final (RecordTrackUnsubscribed ''video''
                      (final (RecordTrackSubscribeSuccess ''video'' node1)))))
             (''success'', '''')
   \<and> vecGet (promTrackSubscribeCounter
        (final (RecordTrackUnsubscribed ''video''
                 (final (RecordTrackSubscribeSuccess ''video'' node1)))))
        (''success'', '''') = 1"
  using counters_never_decrease
          [where c = "CallRecordTrackUnsubscribed ''video''"
             and s = "final (RecordTrackSubscribeSuccess ''video'' node1)"
             and s' = "final (RecordTrackUnsubscribed ''video''
                               (final (RecordTrackSubscribeSuccess ''video'' node1)))"
             and l = "(''success'', '''')"]
  by (simp add: RecordTrackUnsubscribed_def RecordTrackSubscribeSuccess_def final_def node1_def
        initRoomStats_def vecGet_def valid_examples)

text \<open>
  Claim C3. \<^verbatim>\<open>RoomEnded\<close> called with the zero time records no observation. Called
  with any other start time it records exactly one observation, the \<^verbatim>\<open>float64\<close> value
  \<^verbatim>\<open>float64(time.Since(startedAt)) / float64(time.Second)\<close>. When \<open>now - startedAt\<close> fits
  a signed 64-bit count of nanoseconds, \<^verbatim>\<open>time.Since\<close> is that difference and the
  observation is \<open>(now - startedAt) / 10 ^ 9\<close> up to the two roundings, that is within
  \<open>\<bar>now - startedAt\<bar> / 10 ^ 9 / 2 ^ 51\<close> of it. When the difference does not fit,
  \<^verbatim>\<open>time.Since\<close> is the nearest bound of the range and the observation is
  \<open>4835703278458517 / 524288\<close> seconds (about 292 years) or its negative. The bucket
  bounds stay as they are. In every case the room gauge goes down by 1 and the mirror
  \<^verbatim>\<open>roomCurrent\<close> by 1 (in its 32-bit arithmetic).

  The claim as written promises an observation equal to \<open>now - startedAt\<close> in seconds
  for every start time. The counterexample after the theorem has a start more than 292
  years before the clock reading, and a duration of 65.000001026 seconds, which no
  \<^verbatim>\<open>float64\<close> equals.
\<close>

theorem RoomEnded_observation:
  "observations (promRoomDuration (RoomEnded now 0 s)) = observations (promRoomDuration s)
   \<and> (startedAt \<noteq> 0 \<longrightarrow>
        observations (promRoomDuration (RoomEnded now startedAt s))
          = observations (promRoomDuration s)
            @ [float64Quot (float64FromInt (Since now startedAt)) 1000000000])
   \<and> (- (2 ^ 63) \<le> now - startedAt \<and> now - startedAt < 2 ^ 63 \<longrightarrow>
        Since now startedAt = now - startedAt
        \<and> \<bar>float64Quot (float64FromInt (Since now startedAt)) 1000000000
             - real_of_int (now - startedAt) / 1000000000\<bar>
            \<le> \<bar>real_of_int (now - startedAt)\<bar> / 1000000000 / 2 ^ 51)
   \<and> (2 ^ 63 \<le> now - startedAt \<longrightarrow>
        Since now startedAt = 2 ^ 63 - 1
        \<and> float64Quot (float64FromInt (Since now startedAt)) 1000000000
            = 4835703278458517 / 524288)
   \<and> (now - startedAt < - (2 ^ 63) \<longrightarrow>
        Since now startedAt = - (2 ^ 63)
        \<and> float64Quot (float64FromInt (Since now startedAt)) 1000000000
            = - 4835703278458517 / 524288)
   \<and> buckets (promRoomDuration (RoomEnded now startedAt s)) = buckets (promRoomDuration s)
   \<and> promRoomCurrent (RoomEnded now startedAt s) = promRoomCurrent s - 1
   \<and> roomCurrent (RoomEnded now startedAt s) = roomCurrent s - 1"
proof -
  have obs: "observations (promRoomDuration (RoomEnded now startedAt s))
               = observations (promRoomDuration s)
                 @ [float64Quot (float64FromInt (Since now startedAt)) 1000000000]"
    if "startedAt \<noteq> 0"
    using that by (simp add: RoomEnded_def Observe_def IsZero_def float64FromInt_Second)
  have fits: "Since now startedAt = now - startedAt"
    if "- (2 ^ 63) \<le> now - startedAt \<and> now - startedAt < 2 ^ 63"
    using that by (simp add: time_defs)
  have hi: "Since now startedAt = 2 ^ 63 - 1" if "2 ^ 63 \<le> now - startedAt"
    using that by (simp add: time_defs)
  have lo: "Since now startedAt = - (2 ^ 63)" if "now - startedAt < - (2 ^ 63)"
    using that by (simp add: time_defs)
  have rest:
    "observations (promRoomDuration (RoomEnded now 0 s)) = observations (promRoomDuration s)"
    "buckets (promRoomDuration (RoomEnded now startedAt s)) = buckets (promRoomDuration s)"
    "promRoomCurrent (RoomEnded now startedAt s) = promRoomCurrent s - 1"
    "roomCurrent (RoomEnded now startedAt s) = roomCurrent s - 1"
    by (simp_all add: RoomEnded_def Observe_def IsZero_def)
  show ?thesis
    using obs fits hi lo rest seconds_error [of "now - startedAt"]
          float64_examples(3) float64_examples(4)
    by simp
qed

text \<open>A room that started 65.000001026 seconds before the clock reading, and a room
  with no start time.\<close>

theorem RoomEnded_observation_witness:
  "(63900000000000000000 :: int) \<noteq> 0
   \<and> - (2 ^ 63) \<le> (63900000065000001026 :: int) - 63900000000000000000
   \<and> (63900000065000001026 :: int) - 63900000000000000000 < 2 ^ 63
   \<and> observations (promRoomDuration
        (RoomEnded 63900000065000001026 63900000000000000000 (RoomStarted node1)))
       = [1143492110936623 / 17592186044416]
   \<and> \<bar>1143492110936623 / 17592186044416 - 65000001026 / 1000000000\<bar>
       \<le> (65000001026 / 1000000000 / 2 ^ 51 :: real)
   \<and> promRoomCurrent
        (RoomEnded 63900000065000001026 63900000000000000000 (RoomStarted node1)) = 0
   \<and> sint (roomCurrent
        (RoomEnded 63900000065000001026 63900000000000000000 (RoomStarted node1))) = 0
   \<and> observations (promRoomDuration (RoomEnded 63900000065000001026 0 (RoomStarted node1))) = []
   \<and> promRoomCurrent (RoomEnded 63900000065000001026 0 (RoomStarted node1)) = 0"
  using RoomEnded_observation
          [where now = 63900000065000001026 and startedAt = 63900000000000000000
             and s = "RoomStarted node1"]
  by (simp add: RoomStarted_def RoomEnded_def Observe_def time_defs node1_def
        initRoomStats_def float64FromInt_Second float64_examples)

text \<open>
  The clock reads a time in the year 2025. First the room's start time is one nanosecond
  after the zero time: the observation is the largest duration, about 292 years, and
  not the 2025 years that passed. Then the room started 65.000001026 seconds ago: the
  observation is the \<^verbatim>\<open>float64\<close> next to that number.
\<close>

theorem RoomEnded_observation_inexact:
  "observations (promRoomDuration (RoomEnded 63900000000000000000 1 node1))
     = [4835703278458517 / 524288]
   \<and> observations (promRoomDuration (RoomEnded 63900000000000000000 1 node1))
     \<noteq> [real_of_int (63900000000000000000 - 1) / 1000000000]
   \<and> observations (promRoomDuration
        (RoomEnded 63900000065000001026 63900000000000000000 node1))
     = [1143492110936623 / 17592186044416]
   \<and> observations (promRoomDuration
        (RoomEnded 63900000065000001026 63900000000000000000 node1))
     \<noteq> [real_of_int (63900000065000001026 - 63900000000000000000) / 1000000000]"
proof -
  have a: "Since 63900000000000000000 1 = 2 ^ 63 - 1"
    and b: "Since 63900000065000001026 63900000000000000000 = 65000001026"
    by (simp_all add: time_defs)
  show ?thesis
    by (simp add: RoomEnded_def Observe_def IsZero_def a b float64FromInt_Second
          float64_examples node1_def initRoomStats_def)
qed

text \<open>
  Claim C1. A call with a nil error panics, and so does a call whose kind or error
  message is not valid UTF-8; neither updates a series. Every other call returns and
  updates a series. It updates a mirror as well, with one exception:
  \<^verbatim>\<open>RecordTrackSubscribeFailure\<close> updates a mirror exactly when \<^verbatim>\<open>isUserError\<close> is true.

  The claim as written has every call update a mirror; the counterexample after the
  theorem is a failure that the caller does not flag as a user error.
\<close>

theorem entry_points_update_series_and_mirror:
  "(case c of
      CallRecordTrackSubscribeFailure err isUserError \<Rightarrow>
        (case err of
           NilError \<Rightarrow> step c s = Inl (NilPointerDereference, s)
         | Error msg \<Rightarrow>
             if ValidString msg
             then updatesSeries c s \<and> (updatesMirror c s \<longleftrightarrow> isUserError)
             else step c s = Inl (InvalidLabelValue, s))
    | _ \<Rightarrow>
        if faults c
        then isl (step c s) \<and> series (final (step c s)) = series s
        else updatesSeries c s \<and> updatesMirror c s)"
  by (cases c)
     (auto simp: updatesMirror_def updatesSeries_def mirrors_def series_def entry_defs Let_def
        faults_def final_def vecAdd_changes split: error.splits)

text \<open>A track is published, and a subscription fails by the user's fault.\<close>

theorem entry_points_update_series_and_mirror_witness:
  "\<not> faults (CallAddPublishedTrack ''video'')
   \<and> updatesSeries (CallAddPublishedTrack ''video'') node1
   \<and> updatesMirror (CallAddPublishedTrack ''video'') node1
   \<and> ValidString ''denied''
   \<and> updatesSeries (CallRecordTrackSubscribeFailure (Error ''denied'') True) node1
   \<and> updatesMirror (CallRecordTrackSubscribeFailure (Error ''denied'') True) node1"
  using entry_points_update_series_and_mirror
          [where c = "CallAddPublishedTrack ''video''" and s = node1]
        entry_points_update_series_and_mirror
          [where c = "CallRecordTrackSubscribeFailure (Error ''denied'') True" and s = node1]
  by (simp add: faults_def valid_examples)

theorem non_user_failure_leaves_mirrors:
  "step (CallRecordTrackSubscribeFailure (Error ''denied'') False) node1
     = Inr (node1\<lparr>promTrackSubscribeCounter := [((''failure'', ''denied''), 1)]\<rparr>)
   \<and> mirrors (node1\<lparr>promTrackSubscribeCounter := [((''failure'', ''denied''), 1)]\<rparr>)
     = mirrors node1
   \<and> \<not> updatesMirror (CallRecordTrackSubscribeFailure (Error ''denied'') False) node1"
  by (simp add: updatesMirror_def mirrors_def RecordTrackSubscribeFailure_def node1_def
        initRoomStats_def valid_examples)

subsection \<open>Panics\<close>

lemma run_Cons_Inr:
  "run (c # cs) s = Inr s' \<longleftrightarrow> (\<exists>s1. step c s = Inr s1 \<and> run cs s1 = Inr s')"
  by (cases "step c s") auto

lemma step_isl: "isl (step c s) \<longleftrightarrow> faults c"
  by (cases c) (auto simp: entry_defs faults_def Let_def split: error.splits)

lemma run_isl: "isl (run cs s) \<longleftrightarrow> list_ex faults cs"
proof (induction cs arbitrary: s)
  case Nil
  show ?case by simp
next
  case (Cons c cs)
  show ?case
  proof (cases "step c s")
    case (Inl p)
    with step_isl [of c s] show ?thesis by simp
  next
    case (Inr s1)
    with step_isl [of c s] Cons.IH [of s1] show ?thesis by simp
  qed
qed

lemma run_returns: "\<not> list_ex faults cs \<Longrightarrow> \<exists>s'. run cs s = Inr s'"
  using run_isl [of cs s] by (cases "run cs s") simp_all

text \<open>
  Claim C2. A call panics exactly when it is \<^verbatim>\<open>RecordTrackSubscribeFailure\<close> with a nil
  error, or one of its label arguments (the kind, the message of the error) is not
  valid UTF-8. With a nil error the panic is the nil dereference of \<^verbatim>\<open>err.Error()\<close> and
  every variable is as before. With a label value that is not valid UTF-8 the panic
  comes from \<^verbatim>\<open>WithLabelValues\<close>; \<^verbatim>\<open>AddPublishAttempt\<close> and \<^verbatim>\<open>AddPublishSuccess\<close> have
  incremented their mirror by then, every other entry point has changed nothing.
  Every other call returns, whatever its arguments: \<^verbatim>\<open>RoomEnded\<close> with the zero time or
  any other, any kind and any message that is valid UTF-8. A sequence of calls runs to
  its end exactly when none of its calls is one that panics.

  The claim as written includes the nil error and arbitrary kind strings among the
  inputs that never panic; the counterexample after the theorem has both.
\<close>

theorem entry_points_panic_conditions:
  "(isl (step c s) \<longleftrightarrow> faults c)
   \<and> (hasNilError c \<longrightarrow> step c s = Inl (NilPointerDereference, s))
   \<and> (faults c \<and> \<not> hasNilError c \<longrightarrow>
        step c s =
          Inl (InvalidLabelValue,
               case c of
                 CallAddPublishAttempt kind \<Rightarrow>
                   s\<lparr>trackPublishAttempts := trackPublishAttempts s + 1\<rparr>
               | CallAddPublishSuccess kind \<Rightarrow>
                   s\<lparr>trackPublishSuccess := trackPublishSuccess s + 1\<rparr>
               | _ \<Rightarrow> s))
   \<and> (isl (run cs s) \<longleftrightarrow> list_ex faults cs)
   \<and> step (CallRoomEnded now startedAt) s = Inr (RoomEnded now startedAt s)"
proof -
  have "step c s = Inl (NilPointerDereference, s)" if "hasNilError c"
    using that by (cases c rule: hasNilError.cases) (simp_all add: entry_defs)
  moreover have "step c s =
          Inl (InvalidLabelValue,
               case c of
                 CallAddPublishAttempt kind \<Rightarrow>
                   s\<lparr>trackPublishAttempts := trackPublishAttempts s + 1\<rparr>
               | CallAddPublishSuccess kind \<Rightarrow>
                   s\<lparr>trackPublishSuccess := trackPublishSuccess s + 1\<rparr>
               | _ \<Rightarrow> s)"
    if "faults c \<and> \<not> hasNilError c"
    using that
    by (cases c) (auto simp: entry_defs faults_def Let_def split: error.splits)
  ultimately show ?thesis
    by (simp add: step_isl run_isl)
qed

text \<open>
  A valid call, a nil error, the one-byte kind \<open>0xFF\<close> passed to \<^verbatim>\<open>AddPublishAttempt\<close>,
  and a sequence that ends at its second call.
\<close>

theorem entry_points_panic_conditions_witness:
  "\<not> faults (CallAddPublishAttempt ''video'')
   \<and> \<not> isl (step (CallAddPublishAttempt ''video'') node1)
   \<and> hasNilError (CallRecordTrackSubscribeFailure NilError False)
   \<and> step (CallRecordTrackSubscribeFailure NilError False) node1
       = Inl (NilPointerDereference, node1)
   \<and> faults (CallAddPublishAttempt [CHR 0xFF])
   \<and> step (CallAddPublishAttempt [CHR 0xFF]) node1
       = Inl (InvalidLabelValue, node1\<lparr>trackPublishAttempts := 1\<rparr>)
   \<and> list_ex faults [CallRoomStarted, CallRecordTrackUnsubscribed [CHR 0xFF], CallRoomStarted]
   \<and> run [CallRoomStarted, CallRecordTrackUnsubscribed [CHR 0xFF], CallRoomStarted] node1
       = Inl (InvalidLabelValue, RoomStarted node1)"
  using entry_points_panic_conditions
          [where c = "CallAddPublishAttempt ''video''" and s = node1 and cs = "[]"]
        entry_points_panic_conditions
          [where c = "CallRecordTrackSubscribeFailure NilError False" and s = node1 and cs = "[]"]
        entry_points_panic_conditions
          [where c = "CallAddPublishAttempt [CHR 0xFF]" and s = node1
             and cs = "[CallRoomStarted, CallRecordTrackUnsubscribed [CHR 0xFF], CallRoomStarted]"]
  by (simp add: faults_def valid_examples entry_defs node1_def initRoomStats_def)

theorem nil_error_and_invalid_kind_panic:
  "step (CallRecordTrackSubscribeFailure NilError True) node1
     = Inl (NilPointerDereference, node1)
   \<and> step (CallRecordTrackSubscribeFailure NilError False) node1
     = Inl (NilPointerDereference, node1)
   \<and> step (CallAddPublishedTrack [CHR 0xFF]) node1 = Inl (InvalidLabelValue, node1)
   \<and> step (CallRecordTrackSubscribeFailure (Error [CHR 0xFF]) False) node1
     = Inl (InvalidLabelValue, node1)"
  by (simp add: entry_defs valid_examples)

subsection \<open>Sequences of calls\<close>

lemma sint_word_of_int_32:
  "- (2 ^ 31) \<le> i \<Longrightarrow> i < 2 ^ 31 \<Longrightarrow> sint (word_of_int i :: int32) = i"
  by (simp add: signed_of_int signed_take_bit_int_eq_self)

lemma sint_of_nat_le: "sint (of_nat n :: int32) \<le> int n"
  by (simp add: signed_of_nat signed_take_bit_int_less_eq_self_iff)

lemma not_isl_Inr: "\<not> isl r \<Longrightarrow> r = Inr (projr r)"
  by (cases r) simp_all

text \<open>
  A call that panics changes no variable but, at most, one of the two publish mirrors;
  so a run that ends in a panic leaves every other variable as the calls before the
  panic left it.
\<close>

lemma step_fault_frame:
  assumes "faults c"
  shows "(final (step c s))\<lparr>trackPublishAttempts := a, trackPublishSuccess := b\<rparr>
           = s\<lparr>trackPublishAttempts := a, trackPublishSuccess := b\<rparr>"
  using assms
  by (cases c) (auto simp: entry_defs faults_def final_def Let_def split: error.splits)

lemma executed_no_faults: "\<not> list_ex faults (executed cs)"
  by (induction cs) (simp_all add: executed_def)

lemma executed_all: "\<not> list_ex faults cs \<Longrightarrow> executed cs = cs"
  by (induction cs) (simp_all add: executed_def)

lemma run_final_executed:
  "(final (run cs s))\<lparr>trackPublishAttempts := a, trackPublishSuccess := b\<rparr>
     = (final (run (executed cs) s))\<lparr>trackPublishAttempts := a, trackPublishSuccess := b\<rparr>"
proof (induction cs arbitrary: s)
  case Nil
  show ?case by (simp add: executed_def)
next
  case (Cons c cs)
  show ?case
  proof (cases "faults c")
    case True
    then obtain p where p: "step c s = Inl p"
      using step_isl [of c s] by (cases "step c s") simp_all
    have "executed (c # cs) = []"
      using True by (simp add: executed_def)
    moreover have "final (run (c # cs) s) = final (step c s)"
      by (simp add: p)
    ultimately show ?thesis
      using step_fault_frame [OF True, where s = s and a = a and b = b] by (simp add: final_def)
  next
    case False
    then obtain s1 where s1: "step c s = Inr s1"
      using step_isl [of c s] by (cases "step c s") simp_all
    have "executed (c # cs) = c # executed cs"
      using False by (simp add: executed_def)
    then show ?thesis
      using Cons.IH [of s1] by (simp add: s1)
  qed
qed

lemma run_final_fields:
  "promRoomCurrent (final (run cs s)) = promRoomCurrent (final (run (executed cs) s))"
  "roomCurrent (final (run cs s)) = roomCurrent (final (run (executed cs) s))"
  "promParticipantCurrent (final (run cs s))
     = promParticipantCurrent (final (run (executed cs) s))"
  "participantCurrent (final (run cs s)) = participantCurrent (final (run (executed cs) s))"
  "promTrackSubscribeCounter (final (run cs s))
     = promTrackSubscribeCounter (final (run (executed cs) s))"
  "trackSubscribeSuccess (final (run cs s)) = trackSubscribeSuccess (final (run (executed cs) s))"
  "trackSubscribeUserError (final (run cs s))
     = trackSubscribeUserError (final (run (executed cs) s))"
proof -
  let ?l = "(final (run cs s))\<lparr>trackPublishAttempts := 0, trackPublishSuccess := 0\<rparr>"
  let ?r = "(final (run (executed cs) s))\<lparr>trackPublishAttempts := 0, trackPublishSuccess := 0\<rparr>"
  have eq: "?l = ?r"
    by (rule run_final_executed)
  from arg_cong [OF eq, of promRoomCurrent]
  show "promRoomCurrent (final (run cs s)) = promRoomCurrent (final (run (executed cs) s))"
    by simp
  from arg_cong [OF eq, of roomCurrent]
  show "roomCurrent (final (run cs s)) = roomCurrent (final (run (executed cs) s))"
    by simp
  from arg_cong [OF eq, of promParticipantCurrent]
  show "promParticipantCurrent (final (run cs s))
          = promParticipantCurrent (final (run (executed cs) s))"
    by simp
  from arg_cong [OF eq, of participantCurrent]
  show "participantCurrent (final (run cs s)) = participantCurrent (final (run (executed cs) s))"
    by simp
  from arg_cong [OF eq, of promTrackSubscribeCounter]
  show "promTrackSubscribeCounter (final (run cs s))
          = promTrackSubscribeCounter (final (run (executed cs) s))"
    by simp
  from arg_cong [OF eq, of trackSubscribeSuccess]
  show "trackSubscribeSuccess (final (run cs s))
          = trackSubscribeSuccess (final (run (executed cs) s))"
    by simp
  from arg_cong [OF eq, of trackSubscribeUserError]
  show "trackSubscribeUserError (final (run cs s))
          = trackSubscribeUserError (final (run (executed cs) s))"
    by simp
qed

lemma netRooms_Cons: "netRooms (c # cs) = netRooms [c] + netRooms cs"
  by (simp add: netRooms_def)

lemma netParticipants_Cons: "netParticipants (c # cs) = netParticipants [c] + netParticipants cs"
  by (simp add: netParticipants_def)

lemma step_rooms:
  assumes "step c s = Inr s'"
  shows "promRoomCurrent s' = promRoomCurrent s + netRooms [c]
       \<and> roomCurrent s' = roomCurrent s + word_of_int (netRooms [c])
       \<and> promParticipantCurrent s' = promParticipantCurrent s + netParticipants [c]
       \<and> participantCurrent s' = participantCurrent s + word_of_int (netParticipants [c])"
  using assms
  by (cases c)
     (auto simp: entry_defs Let_def netRooms_def netParticipants_def
        split: error.splits if_splits)

lemma run_rooms:
  "run cs s = Inr s' \<Longrightarrow>
     promRoomCurrent s' = promRoomCurrent s + netRooms cs
     \<and> roomCurrent s' = roomCurrent s + word_of_int (netRooms cs)
     \<and> promParticipantCurrent s' = promParticipantCurrent s + netParticipants cs
     \<and> participantCurrent s' = participantCurrent s + word_of_int (netParticipants cs)"
proof (induction cs arbitrary: s)
  case Nil
  then show ?case by (simp add: netRooms_def netParticipants_def)
next
  case (Cons c cs)
  obtain s1 where s1: "step c s = Inr s1" and r: "run cs s1 = Inr s'"
    using run_Cons_Inr [THEN iffD1, OF Cons.prems] by blast
  from step_rooms [OF s1] Cons.IH [OF r] show ?case
    by (simp add: netRooms_Cons [of c cs] netParticipants_Cons [of c cs])
qed

text \<open>
  Claim C4. Take any sequence of calls from the state after start-up. When none of its
  calls panics it runs to its end, and there the room gauge is the number of
  \<^verbatim>\<open>RoomStarted\<close> calls minus the number of \<^verbatim>\<open>RoomEnded\<close> calls, and the mirror
  \<^verbatim>\<open>roomCurrent\<close> is that number reduced to 32 bits. Gauge and mirror are equal as
  integers whenever the number lies between \<open>- 2 ^ 31\<close> and \<open>2 ^ 31 - 1\<close>. The same
  holds for the participant gauge and \<^verbatim>\<open>participantCurrent\<close> with \<^verbatim>\<open>AddParticipant\<close> and
  \<^verbatim>\<open>SubParticipant\<close>. When a call panics, the run ends there: the calls before it form
  a sequence without a panic, and the run leaves the two gauges and the two mirrors as
  that sequence does.

  The claim as written has gauge and mirror equal after every sequence; the
  counterexample after the theorem is a sequence that overflows the mirror.
\<close>

theorem room_and_participant_gauges_match_mirrors:
  "(\<not> list_ex faults cs \<longrightarrow>
      (\<exists>s. run cs (initRoomStats nodeID nodeType env) = Inr s
         \<and> promRoomCurrent s = netRooms cs
         \<and> roomCurrent s = word_of_int (netRooms cs)
         \<and> (- (2 ^ 31) \<le> netRooms cs \<and> netRooms cs < 2 ^ 31 \<longrightarrow>
              sint (roomCurrent s) = promRoomCurrent s)
         \<and> promParticipantCurrent s = netParticipants cs
         \<and> participantCurrent s = word_of_int (netParticipants cs)
         \<and> (- (2 ^ 31) \<le> netParticipants cs \<and> netParticipants cs < 2 ^ 31 \<longrightarrow>
              sint (participantCurrent s) = promParticipantCurrent s)))
   \<and> \<not> list_ex faults (executed cs)
   \<and> promRoomCurrent (final (run cs (initRoomStats nodeID nodeType env)))
       = promRoomCurrent (final (run (executed cs) (initRoomStats nodeID nodeType env)))
   \<and> roomCurrent (final (run cs (initRoomStats nodeID nodeType env)))
       = roomCurrent (final (run (executed cs) (initRoomStats nodeID nodeType env)))
   \<and> promParticipantCurrent (final (run cs (initRoomStats nodeID nodeType env)))
       = promParticipantCurrent (final (run (executed cs) (initRoomStats nodeID nodeType env)))
   \<and> participantCurrent (final (run cs (initRoomStats nodeID nodeType env)))
       = participantCurrent (final (run (executed cs) (initRoomStats nodeID nodeType env)))"
proof -
  have "\<exists>s. run cs (initRoomStats nodeID nodeType env) = Inr s
         \<and> promRoomCurrent s = netRooms cs
         \<and> roomCurrent s = word_of_int (netRooms cs)
         \<and> (- (2 ^ 31) \<le> netRooms cs \<and> netRooms cs < 2 ^ 31 \<longrightarrow>
              sint (roomCurrent s) = promRoomCurrent s)
         \<and> promParticipantCurrent s = netParticipants cs
         \<and> participantCurrent s = word_of_int (netParticipants cs)
         \<and> (- (2 ^ 31) \<le> netParticipants cs \<and> netParticipants cs < 2 ^ 31 \<longrightarrow>
              sint (participantCurrent s) = promParticipantCurrent s)"
    if ok: "\<not> list_ex faults cs"
  proof -
    from run_returns [OF ok] obtain s
      where r: "run cs (initRoomStats nodeID nodeType env) = Inr s" ..
    from run_rooms [OF r] have
      "promRoomCurrent s = netRooms cs"
      "roomCurrent s = word_of_int (netRooms cs)"
      "promParticipantCurrent s = netParticipants cs"
      "participantCurrent s = word_of_int (netParticipants cs)"
      by (simp_all add: initRoomStats_def)
    with r show ?thesis
      by (simp add: sint_word_of_int_32)
  qed
  then show ?thesis
    using executed_no_faults [of cs]
          run_final_fields(1-4) [of cs "initRoomStats nodeID nodeType env"]
    by blast
qed

text \<open>
  Two rooms start, a participant joins and publishes audio; the track is unpublished, the
  participant leaves and one room ends after 65 seconds. Then the same calls once more,
  with a call in the middle that panics.
\<close>

theorem room_and_participant_gauges_match_mirrors_witness:
  "\<not> list_ex faults
        [CallRoomStarted, CallAddParticipant, CallAddPublishedTrack ''audio'', CallRoomStarted,
         CallSubPublishedTrack ''audio'', CallSubParticipant,
         CallRoomEnded 63900000065000000000 63900000000000000000]
   \<and> \<not> isl (run [CallRoomStarted, CallAddParticipant, CallAddPublishedTrack ''audio'',
                  CallRoomStarted, CallSubPublishedTrack ''audio'', CallSubParticipant,
                  CallRoomEnded 63900000065000000000 63900000000000000000] node1)
   \<and> promRoomCurrent
        (projr (run [CallRoomStarted, CallAddParticipant, CallAddPublishedTrack ''audio'',
                     CallRoomStarted, CallSubPublishedTrack ''audio'', CallSubParticipant,
                     CallRoomEnded 63900000065000000000 63900000000000000000] node1)) = 1
   \<and> sint (roomCurrent
        (projr (run [CallRoomStarted, CallAddParticipant, CallAddPublishedTrack ''audio'',
                     CallRoomStarted, CallSubPublishedTrack ''audio'', CallSubParticipant,
                     CallRoomEnded 63900000065000000000 63900000000000000000] node1))) = 1
   \<and> promParticipantCurrent
        (projr (run [CallRoomStarted, CallAddParticipant, CallAddPublishedTrack ''audio'',
                     CallRoomStarted, CallSubPublishedTrack ''audio'', CallSubParticipant,
                     CallRoomEnded 63900000065000000000 63900000000000000000] node1)) = 0
   \<and> sint (participantCurrent
        (projr (run [CallRoomStarted, CallAddParticipant, CallAddPublishedTrack ''audio'',
                     CallRoomStarted, CallSubPublishedTrack ''audio'', CallSubParticipant,
                     CallRoomEnded 63900000065000000000 63900000000000000000] node1))) = 0
   \<and> executed [CallRoomStarted, CallAddParticipant, CallAddPublishedTrack [CHR 0xFF],
                CallRoomStarted] = [CallRoomStarted, CallAddParticipant]
   \<and> promRoomCurrent
        (final (run [CallRoomStarted, CallAddParticipant, CallAddPublishedTrack [CHR 0xFF],
                     CallRoomStarted] node1)) = 1
   \<and> sint (participantCurrent
        (final (run [CallRoomStarted, CallAddParticipant, CallAddPublishedTrack [CHR 0xFF],
                     CallRoomStarted] node1))) = 1"
proof -
  let ?cs = "[CallRoomStarted, CallAddParticipant, CallAddPublishedTrack ''audio'',
              CallRoomStarted, CallSubPublishedTrack ''audio'', CallSubParticipant,
              CallRoomEnded 63900000065000000000 63900000000000000000]"
  let ?ds = "[CallRoomStarted, CallAddParticipant, CallAddPublishedTrack [CHR 0xFF],
              CallRoomStarted]"
  have ok: "\<not> list_ex faults ?cs"
    by (simp add: faults_def valid_examples)
  have ex: "executed ?ds = [CallRoomStarted, CallAddParticipant]"
    by (simp add: executed_def faults_def valid_examples)
  have n: "netRooms ?cs = 1" "netParticipants ?cs = 0"
    by (simp_all add: netRooms_def netParticipants_def)
  from room_and_participant_gauges_match_mirrors
         [where cs = ?cs and nodeID = "''n1''" and nodeType = "''SERVER''" and env = "''test''"]
       ok n
  have "\<not> isl (run ?cs node1)
        \<and> promRoomCurrent (projr (run ?cs node1)) = 1
        \<and> sint (roomCurrent (projr (run ?cs node1))) = 1
        \<and> promParticipantCurrent (projr (run ?cs node1)) = 0
        \<and> sint (participantCurrent (projr (run ?cs node1))) = 0"
    by (auto simp: node1_def)
  moreover from room_and_participant_gauges_match_mirrors
         [where cs = ?ds and nodeID = "''n1''" and nodeType = "''SERVER''" and env = "''test''"]
  have "promRoomCurrent (final (run ?ds node1)) = 1
        \<and> sint (participantCurrent (final (run ?ds node1))) = 1"
    by (simp add: ex node1_def initRoomStats_def final_def RoomStarted_def AddParticipant_def)
  ultimately show ?thesis
    using ok ex by simp
qed

lemma run_replicate_RoomStarted:
  "run (replicate n CallRoomStarted) s
     = Inr (s\<lparr>promRoomCurrent := promRoomCurrent s + int n, roomCurrent := roomCurrent s + of_nat n\<rparr>)"
  by (induction n arbitrary: s) (simp_all add: RoomStarted_def)

text \<open>
  \<open>2 ^ 31\<close> rooms start and none ends: the gauge holds 2147483648, the mirror has
  wrapped around to the least 32-bit integer.
\<close>

theorem room_mirror_wraps:
  "\<not> isl (run (replicate 2147483648 CallRoomStarted) node1)
   \<and> promRoomCurrent (projr (run (replicate 2147483648 CallRoomStarted) node1)) = 2147483648
   \<and> sint (roomCurrent (projr (run (replicate 2147483648 CallRoomStarted) node1))) = - 2147483648
   \<and> sint (roomCurrent (projr (run (replicate 2147483648 CallRoomStarted) node1)))
       \<noteq> promRoomCurrent (projr (run (replicate 2147483648 CallRoomStarted) node1))"
  by (simp add: run_replicate_RoomStarted node1_def initRoomStats_def)

lemma step_success:
  assumes "step c s = Inr s'"
  shows "vecGet (promTrackSubscribeCounter s') (''success'', '''')
         = vecGet (promTrackSubscribeCounter s) (''success'', '''')
           + length (filter isSubscribeSuccess [c])
       \<and> trackSubscribeSuccess s'
         = trackSubscribeSuccess s + of_nat (length (filter isSubscribeSuccess [c]))"
  using assms
  by (cases c) (auto simp: entry_defs Let_def vecGet_vecAdd split: error.splits if_splits)

lemma run_success:
  "run cs s = Inr s' \<Longrightarrow>
     vecGet (promTrackSubscribeCounter s') (''success'', '''')
       = vecGet (promTrackSubscribeCounter s) (''success'', '''')
         + length (filter isSubscribeSuccess cs)
     \<and> trackSubscribeSuccess s'
       = trackSubscribeSuccess s + of_nat (length (filter isSubscribeSuccess cs))"
proof (induction cs arbitrary: s)
  case Nil
  then show ?case by simp
next
  case (Cons c cs)
  obtain s1 where s1: "step c s = Inr s1" and r: "run cs s1 = Inr s'"
    using run_Cons_Inr [THEN iffD1, OF Cons.prems] by blast
  from step_success [OF s1] Cons.IH [OF r] show ?case
    by (cases "isSubscribeSuccess c") simp_all
qed

text \<open>
  Claim C5. Take any sequence of calls from the state after start-up. When none of its
  calls panics it runs to its end, and there the series \<open>(success, empty error)\<close> of the
  subscribe counter is the number of \<^verbatim>\<open>RecordTrackSubscribeSuccess\<close> calls and the mirror
  \<^verbatim>\<open>trackSubscribeSuccess\<close> is that number reduced to 32 bits; the two are equal as
  integers whenever the number is below \<open>2 ^ 31\<close>. When a call panics, the run ends
  there: the calls before it form a sequence without a panic, and the run leaves the
  subscribe counter and the mirror as that sequence does. Successes may exceed
  attempts: after one \<^verbatim>\<open>RecordTrackSubscribeSuccess\<close> with a kind that is valid UTF-8 and
  no \<^verbatim>\<open>RecordTrackSubscribeAttempt\<close> the success mirror is above the attempt mirror.

  The claim as written has counter and mirror equal after every sequence; the
  counterexample after the theorem is a sequence that overflows the mirror.
\<close>

theorem subscribe_success_counter_matches_mirror:
  "(\<not> list_ex faults cs \<longrightarrow>
      (\<exists>s. run cs (initRoomStats nodeID nodeType env) = Inr s
          \<and> vecGet (promTrackSubscribeCounter s) (''success'', '''')
              = length (filter isSubscribeSuccess cs)
          \<and> trackSubscribeSuccess s = of_nat (length (filter isSubscribeSuccess cs))
          \<and> (length (filter isSubscribeSuccess cs) < 2 ^ 31 \<longrightarrow>
               sint (trackSubscribeSuccess s)
                 = int (vecGet (promTrackSubscribeCounter s) (''success'', '''')))))
   \<and> \<not> list_ex faults (executed cs)
   \<and> promTrackSubscribeCounter (final (run cs (initRoomStats nodeID nodeType env)))
       = promTrackSubscribeCounter (final (run (executed cs) (initRoomStats nodeID nodeType env)))
   \<and> trackSubscribeSuccess (final (run cs (initRoomStats nodeID nodeType env)))
       = trackSubscribeSuccess (final (run (executed cs) (initRoomStats nodeID nodeType env)))
   \<and> (ValidString kind \<longrightarrow>
        run [CallRecordTrackSubscribeSuccess kind] (initRoomStats nodeID nodeType env)
          = RecordTrackSubscribeSuccess kind (initRoomStats nodeID nodeType env)
        \<and> \<not> isl (RecordTrackSubscribeSuccess kind (initRoomStats nodeID nodeType env))
        \<and> sint (trackSubscribeAttempts
                  (final (RecordTrackSubscribeSuccess kind (initRoomStats nodeID nodeType env))))
            < sint (trackSubscribeSuccess
                  (final (RecordTrackSubscribeSuccess kind (initRoomStats nodeID nodeType env)))))"
proof -
  let ?n = "length (filter isSubscribeSuccess cs)"
  have main: "\<exists>s. run cs (initRoomStats nodeID nodeType env) = Inr s
          \<and> vecGet (promTrackSubscribeCounter s) (''success'', '''') = ?n
          \<and> trackSubscribeSuccess s = of_nat ?n
          \<and> (?n < 2 ^ 31 \<longrightarrow>
               sint (trackSubscribeSuccess s)
                 = int (vecGet (promTrackSubscribeCounter s) (''success'', '''')))"
    if ok: "\<not> list_ex faults cs"
  proof -
    from run_returns [OF ok] obtain s
      where r: "run cs (initRoomStats nodeID nodeType env) = Inr s" ..
    have a: "vecGet (promTrackSubscribeCounter s) (''success'', '''') = ?n"
      and b: "trackSubscribeSuccess s = of_nat ?n"
      using run_success [OF r] by (simp_all add: initRoomStats_def vecGet_def)
    have c: "sint (trackSubscribeSuccess s) = int ?n" if "?n < 2 ^ 31"
    proof -
      have "sint (word_of_int (int ?n) :: int32) = int ?n"
        using that by (intro sint_word_of_int_32) simp_all
      then show ?thesis by (simp add: b)
    qed
    from r a b c show ?thesis
      by (intro exI [of _ s]) simp
  qed
  have ex: "run [CallRecordTrackSubscribeSuccess kind] (initRoomStats nodeID nodeType env)
          = RecordTrackSubscribeSuccess kind (initRoomStats nodeID nodeType env)
        \<and> \<not> isl (RecordTrackSubscribeSuccess kind (initRoomStats nodeID nodeType env))
        \<and> sint (trackSubscribeAttempts
                  (final (RecordTrackSubscribeSuccess kind (initRoomStats nodeID nodeType env))))
            < sint (trackSubscribeSuccess
                  (final (RecordTrackSubscribeSuccess kind (initRoomStats nodeID nodeType env))))"
    if "ValidString kind"
    using that by (simp add: RecordTrackSubscribeSuccess_def initRoomStats_def final_def)
  show ?thesis
    using main ex executed_no_faults [of cs]
          run_final_fields(5,6) [of cs "initRoomStats nodeID nodeType env"]
    by blast
qed

text \<open>
  Three attempts, two successes on video and one failure that is the user's: the
  counter series read 3, 2 and 1, and the success mirror reads 2.
\<close>

theorem subscribe_success_counter_matches_mirror_witness:
  "\<not> list_ex faults
        [CallRecordTrackSubscribeAttempt, CallRecordTrackSubscribeAttempt,
         CallRecordTrackSubscribeAttempt, CallRecordTrackSubscribeSuccess ''video'',
         CallRecordTrackSubscribeSuccess ''video'',
         CallRecordTrackSubscribeFailure (Error ''denied'') True]
   \<and> promTrackSubscribeCounter
        (projr (run [CallRecordTrackSubscribeAttempt, CallRecordTrackSubscribeAttempt,
                     CallRecordTrackSubscribeAttempt, CallRecordTrackSubscribeSuccess ''video'',
                     CallRecordTrackSubscribeSuccess ''video'',
                     CallRecordTrackSubscribeFailure (Error ''denied'') True] node1))
       = [((''attempt'', ''''), 3), ((''success'', ''''), 2), ((''failure'', ''denied''), 1)]
   \<and> sint (trackSubscribeSuccess
        (projr (run [CallRecordTrackSubscribeAttempt, CallRecordTrackSubscribeAttempt,
                     CallRecordTrackSubscribeAttempt, CallRecordTrackSubscribeSuccess ''video'',
                     CallRecordTrackSubscribeSuccess ''video'',
                     CallRecordTrackSubscribeFailure (Error ''denied'') True] node1))) = 2
   \<and> ValidString ''video''
   \<and> sint (trackSubscribeAttempts (final (RecordTrackSubscribeSuccess ''video'' node1))) = 0
   \<and> sint (trackSubscribeSuccess (final (RecordTrackSubscribeSuccess ''video'' node1))) = 1"
proof -
  let ?cs = "[CallRecordTrackSubscribeAttempt, CallRecordTrackSubscribeAttempt,
              CallRecordTrackSubscribeAttempt, CallRecordTrackSubscribeSuccess ''video'',
              CallRecordTrackSubscribeSuccess ''video'',
              CallRecordTrackSubscribeFailure (Error ''denied'') True]"
  have ok: "\<not> list_ex faults ?cs"
    by (simp add: faults_def valid_examples)
  have n: "length (filter isSubscribeSuccess ?cs) = 2"
    by simp
  have run: "run ?cs node1
      = Inr (node1\<lparr>promTrackSubscribedCurrent := [(''video'', 2)],
                   trackSubscribedCurrent := 2,
                   promTrackSubscribeCounter :=
                     [((''attempt'', ''''), 3), ((''success'', ''''), 2),
                      ((''failure'', ''denied''), 1)],
                   trackSubscribeSuccess := 2, trackSubscribeAttempts := 3,
                   trackSubscribeUserError := 1\<rparr>)"
    by (simp add: node1_def initRoomStats_def entry_defs valid_examples)
  from subscribe_success_counter_matches_mirror
         [where cs = ?cs and nodeID = "''n1''" and nodeType = "''SERVER''" and env = "''test''"
            and kind = "''video''"]
       ok n
  have "sint (trackSubscribeSuccess (projr (run ?cs node1))) = 2
        \<and> sint (trackSubscribeAttempts (final (RecordTrackSubscribeSuccess ''video'' node1)))
            < sint (trackSubscribeSuccess (final (RecordTrackSubscribeSuccess ''video'' node1)))"
    by (auto simp: node1_def valid_examples)
  moreover have
    "sint (trackSubscribeAttempts (final (RecordTrackSubscribeSuccess ''video'' node1))) = 0"
    by (simp add: RecordTrackSubscribeSuccess_def final_def node1_def initRoomStats_def
          valid_examples)
  ultimately show ?thesis
    using ok run
    by (simp add: valid_examples RecordTrackSubscribeSuccess_def final_def node1_def
          initRoomStats_def)
qed

lemma run_replicate_SubscribeSuccess:
  "\<not> isl (run (replicate n (CallRecordTrackSubscribeSuccess ''video'')) s)"
  by (simp add: run_isl list_ex_iff faults_def valid_examples)

text \<open>
  \<open>2 ^ 31\<close> subscriptions succeed: the counter series holds 2147483648, the mirror has
  wrapped around to the least 32-bit integer.
\<close>

theorem subscribe_success_mirror_wraps:
  "\<not> isl (run (replicate 2147483648 (CallRecordTrackSubscribeSuccess ''video'')) node1)
   \<and> vecGet (promTrackSubscribeCounter
        (projr (run (replicate 2147483648 (CallRecordTrackSubscribeSuccess ''video'')) node1)))
        (''success'', '''') = 2147483648
   \<and> sint (trackSubscribeSuccess
        (projr (run (replicate 2147483648 (CallRecordTrackSubscribeSuccess ''video'')) node1)))
       = - 2147483648
   \<and> sint (trackSubscribeSuccess
        (projr (run (replicate 2147483648 (CallRecordTrackSubscribeSuccess ''video'')) node1)))
       \<noteq> int (vecGet (promTrackSubscribeCounter
           (projr (run (replicate 2147483648 (CallRecordTrackSubscribeSuccess ''video'')) node1)))
           (''success'', ''''))"
proof -
  let ?cs = "replicate 2147483648 (CallRecordTrackSubscribeSuccess ''video'')"
  let ?r = "run ?cs node1"
  have ok: "\<not> isl ?r"
    by (rule run_replicate_SubscribeSuccess)
  then have r: "?r = Inr (projr ?r)"
    by (rule not_isl_Inr)
  have n: "length (filter isSubscribeSuccess ?cs) = 2147483648"
    by (simp only: filter_replicate isSubscribeSuccess.simps if_True length_replicate)
  from run_success [OF r] ok show ?thesis
    by (simp only: n) (simp add: node1_def initRoomStats_def vecGet_def)
qed

lemma step_userError:
  assumes "step c s = Inr s'"
  shows "trackSubscribeUserError s'
         = trackSubscribeUserError s + (if isUserFailure c then 1 else 0)
       \<and> failureTotal (promTrackSubscribeCounter s) + (if isUserFailure c then 1 else 0)
           \<le> failureTotal (promTrackSubscribeCounter s')
       \<and> (distinct (map fst (promTrackSubscribeCounter s)) \<longrightarrow>
            distinct (map fst (promTrackSubscribeCounter s')))"
  using assms
  by (cases c)
     (auto simp: entry_defs Let_def failureTotal_vecAdd vecAdd_distinct
        split: error.splits if_splits)

lemma run_userError:
  "run cs s = Inr s' \<Longrightarrow>
     (\<exists>n. trackSubscribeUserError s' = trackSubscribeUserError s + of_nat n
        \<and> failureTotal (promTrackSubscribeCounter s) + n
            \<le> failureTotal (promTrackSubscribeCounter s'))
     \<and> (distinct (map fst (promTrackSubscribeCounter s)) \<longrightarrow>
          distinct (map fst (promTrackSubscribeCounter s')))"
proof (induction cs arbitrary: s)
  case Nil
  then show ?case by (auto intro: exI [of _ 0])
next
  case (Cons c cs)
  obtain s1 where s1: "step c s = Inr s1" and r: "run cs s1 = Inr s'"
    using run_Cons_Inr [THEN iffD1, OF Cons.prems] by blast
  from Cons.IH [OF r] obtain n where
    n: "trackSubscribeUserError s' = trackSubscribeUserError s1 + of_nat n"
       "failureTotal (promTrackSubscribeCounter s1) + n
          \<le> failureTotal (promTrackSubscribeCounter s')"
    and d: "distinct (map fst (promTrackSubscribeCounter s1)) \<longrightarrow>
              distinct (map fst (promTrackSubscribeCounter s'))"
    by blast
  let ?k = "if isUserFailure c then 1 else 0 :: nat"
  from step_userError [OF s1] n have
    "trackSubscribeUserError s' = trackSubscribeUserError s + of_nat (?k + n)"
    "failureTotal (promTrackSubscribeCounter s) + (?k + n)
       \<le> failureTotal (promTrackSubscribeCounter s')"
    by (simp_all split: if_splits)
  moreover from step_userError [OF s1] d have
    "distinct (map fst (promTrackSubscribeCounter s)) \<longrightarrow>
       distinct (map fst (promTrackSubscribeCounter s'))"
    by blast
  ultimately show ?case by blast
qed

text \<open>
  Claim C6. Take any sequence of calls from the state after start-up. When none of its
  calls panics it runs to its end, and there the mirror \<^verbatim>\<open>trackSubscribeUserError\<close>, read
  as a signed integer, is at most the subscribe counter summed over the series whose
  state is \<open>failure\<close>; the counter has one series for each label pair, so that sum runs
  over the error labels. When a call panics, the run ends there: the calls before it
  form a sequence without a panic, and the run leaves the mirror and the subscribe
  counter as that sequence does, so the bound holds for every sequence. In any state,
  a call that returns adds 1 to the mirror when it is \<^verbatim>\<open>RecordTrackSubscribeFailure\<close>
  with \<^verbatim>\<open>isUserError\<close> true, and leaves the mirror as it was otherwise; a call that
  panics leaves the mirror as it was.
\<close>

theorem user_error_bounded_by_failures:
  "(\<forall>cs. \<not> list_ex faults cs \<longrightarrow>
      (\<exists>s. run cs (initRoomStats nodeID nodeType env) = Inr s
         \<and> sint (trackSubscribeUserError s) \<le> int (failureTotal (promTrackSubscribeCounter s))
         \<and> distinct (map fst (promTrackSubscribeCounter s))))
   \<and> (\<forall>cs. sint (trackSubscribeUserError (final (run cs (initRoomStats nodeID nodeType env))))
             \<le> int (failureTotal (promTrackSubscribeCounter
                   (final (run cs (initRoomStats nodeID nodeType env)))))
           \<and> distinct (map fst (promTrackSubscribeCounter
                   (final (run cs (initRoomStats nodeID nodeType env))))))
   \<and> (\<forall>c s s'. step c s = Inr s' \<longrightarrow>
        trackSubscribeUserError s' =
          (if \<exists>msg. c = CallRecordTrackSubscribeFailure (Error msg) True
           then trackSubscribeUserError s + 1 else trackSubscribeUserError s))
   \<and> (\<forall>c s f s'. step c s = Inl (f, s') \<longrightarrow>
        trackSubscribeUserError s' = trackSubscribeUserError s)"
proof -
  have main: "\<exists>s. run cs (initRoomStats nodeID nodeType env) = Inr s
         \<and> sint (trackSubscribeUserError s) \<le> int (failureTotal (promTrackSubscribeCounter s))
         \<and> distinct (map fst (promTrackSubscribeCounter s))"
    if ok: "\<not> list_ex faults cs" for cs
  proof -
    from run_returns [OF ok] obtain s
      where r: "run cs (initRoomStats nodeID nodeType env) = Inr s" ..
    from run_userError [OF r] obtain n where
      n: "trackSubscribeUserError s = of_nat n" "n \<le> failureTotal (promTrackSubscribeCounter s)"
      and d: "distinct (map fst (promTrackSubscribeCounter s))"
      by (auto simp: initRoomStats_def failureTotal_def)
    have "sint (trackSubscribeUserError s) \<le> int n"
      by (simp only: n sint_of_nat_le)
    with r n d show ?thesis
      by (intro exI [of _ s]) simp
  qed
  have every: "sint (trackSubscribeUserError (final (run cs (initRoomStats nodeID nodeType env))))
             \<le> int (failureTotal (promTrackSubscribeCounter
                   (final (run cs (initRoomStats nodeID nodeType env)))))
           \<and> distinct (map fst (promTrackSubscribeCounter
                   (final (run cs (initRoomStats nodeID nodeType env)))))"
    for cs
  proof -
    from main [OF executed_no_faults [of cs]] obtain s where
      s: "run (executed cs) (initRoomStats nodeID nodeType env) = Inr s"
         "sint (trackSubscribeUserError s) \<le> int (failureTotal (promTrackSubscribeCounter s))"
         "distinct (map fst (promTrackSubscribeCounter s))"
      by blast
    then have "final (run (executed cs) (initRoomStats nodeID nodeType env)) = s"
      by (simp add: final_def)
    with s run_final_fields(5,7) [of cs "initRoomStats nodeID nodeType env"]
    show ?thesis by simp
  qed
  have ret: "trackSubscribeUserError s' =
          (if \<exists>msg. c = CallRecordTrackSubscribeFailure (Error msg) True
           then trackSubscribeUserError s + 1 else trackSubscribeUserError s)"
    if "step c s = Inr s'" for c s s'
    using that by (cases c) (auto simp: entry_defs Let_def split: error.splits if_splits)
  have pan: "trackSubscribeUserError s' = trackSubscribeUserError s"
    if "step c s = Inl (f, s')" for c s f s'
    using that by (cases c) (auto simp: entry_defs Let_def split: error.splits if_splits)
  show ?thesis
    using main every ret pan by blast
qed

text \<open>
  Two failures, one of them the user's: the mirror reads 1, the failures sum to 2. Then
  the same calls followed by a failure with a nil error, which changes neither.
\<close>

theorem user_error_bounded_by_failures_witness:
  "\<not> list_ex faults
        [CallRecordTrackSubscribeAttempt,
         CallRecordTrackSubscribeFailure (Error ''denied'') True,
         CallRecordTrackSubscribeFailure (Error ''timeout'') False]
   \<and> sint (trackSubscribeUserError
        (projr (run [CallRecordTrackSubscribeAttempt,
                     CallRecordTrackSubscribeFailure (Error ''denied'') True,
                     CallRecordTrackSubscribeFailure (Error ''timeout'') False] node1))) = 1
   \<and> failureTotal (promTrackSubscribeCounter
        (projr (run [CallRecordTrackSubscribeAttempt,
                     CallRecordTrackSubscribeFailure (Error ''denied'') True,
                     CallRecordTrackSubscribeFailure (Error ''timeout'') False] node1))) = 2
   \<and> sint (trackSubscribeUserError
        (final (run [CallRecordTrackSubscribeAttempt,
                     CallRecordTrackSubscribeFailure (Error ''denied'') True,
                     CallRecordTrackSubscribeFailure (Error ''timeout'') False,
                     CallRecordTrackSubscribeFailure NilError True] node1))) = 1
   \<and> step (CallRecordTrackSubscribeFailure (Error ''denied'') True) node1
       = Inr (projr (step (CallRecordTrackSubscribeFailure (Error ''denied'') True) node1))
   \<and> trackSubscribeUserError
        (projr (step (CallRecordTrackSubscribeFailure (Error ''denied'') True) node1)) = 1
   \<and> step (CallRecordTrackSubscribeFailure NilError True) node1
       = Inl (NilPointerDereference, node1)"
proof -
  let ?cs = "[CallRecordTrackSubscribeAttempt,
              CallRecordTrackSubscribeFailure (Error ''denied'') True,
              CallRecordTrackSubscribeFailure (Error ''timeout'') False]"
  have ok: "\<not> list_ex faults ?cs"
    by (simp add: faults_def valid_examples)
  have direct:
    "sint (trackSubscribeUserError (projr (run ?cs node1))) = 1"
    "failureTotal (promTrackSubscribeCounter (projr (run ?cs node1))) = 2"
    "sint (trackSubscribeUserError
       (final (run (?cs @ [CallRecordTrackSubscribeFailure NilError True]) node1))) = 1"
    "step (CallRecordTrackSubscribeFailure (Error ''denied'') True) node1
       = Inr (projr (step (CallRecordTrackSubscribeFailure (Error ''denied'') True) node1))"
    "trackSubscribeUserError
        (projr (step (CallRecordTrackSubscribeFailure (Error ''denied'') True) node1)) = 1"
    "step (CallRecordTrackSubscribeFailure NilError True) node1
       = Inl (NilPointerDereference, node1)"
    by (simp_all add: node1_def initRoomStats_def entry_defs failureTotal_def final_def
          valid_examples)
  from user_error_bounded_by_failures
         [where nodeID = "''n1''" and nodeType = "''SERVER''" and env = "''test''"]
  have "sint (trackSubscribeUserError (final (run ?cs node1)))
          \<le> int (failureTotal (promTrackSubscribeCounter (final (run ?cs node1))))"
    unfolding node1_def by blast
  with ok direct show ?thesis
    by simp
qed

end
